theory Spec2Isabelle
  imports Main "HOL-Library.Word"
begin

unbundle bit_operations_syntax

text \<open>
  A shallow embedding of io-lib: the database session manager of \<open>dbio.go\<close>
  (\<open>OpenDB\<close>, \<open>OutputDB\<close>, \<open>CloseDB\<close> and the schema bootstrap), the logger and
  \<open>ZeroFill\<close>. The operating system, \<open>database/sql\<close> and SQLite are not code of
  the repository: their calls are modelled by their documented effect on an explicit
  process state, and every outcome the code cannot decide is a field of an environment
  over which the theorems quantify.
\<close>

section \<open>utility.go: ZeroFill\<close>

text \<open>
  Go panics at run time when a slice expression leaves the operand's bounds. The
  panic is a value of the model: \<open>SliceBoundsOutOfRange k n\<close> stands for
  ``slice bounds out of range [:k] with length n''.
\<close>

datatype panic = SliceBoundsOutOfRange int nat

text \<open>The Go slice expression \<open>s[:k]\<close> on a string.\<close>

definition slice_to :: "string \<Rightarrow> int \<Rightarrow> panic + string" where
  "slice_to s k =
     (if 0 \<le> k \<and> k \<le> int (length s) then Inr (take (nat k) s)
      else Inl (SliceBoundsOutOfRange k (length s)))"

text \<open>
  \<^verbatim>\<open>
  func ZeroFill(a string, size int) string {
      num := len(a)
      if num >= size { return a }
      return "0000000"[:size-num] + a
  }
  \<close>
  \<open>len\<close> counts bytes, as \<open>length\<close> does on a \<open>string\<close>. The subtraction
  \<open>size - num\<close> is only reached with \<open>0 \<le> num < size\<close>, where a 64-bit
  \<open>int\<close> cannot wrap, so \<open>size\<close> is an \<open>int\<close> of HOL.
\<close>

definition ZeroFill :: "string \<Rightarrow> int \<Rightarrow> panic + string" where
  "ZeroFill a sz =
     (let num = int (length a) in
      if num \<ge> sz then Inr a
      else (case slice_to ''0000000'' (sz - num) of
              Inl p \<Rightarrow> Inl p
            | Inr zeros \<Rightarrow> Inr (zeros @ a)))"

section \<open>The embedded SQL engine, as far as the code drives it\<close>

text \<open>
  The code talks to SQLite through \<open>database/sql\<close>. The model keeps the statements
  of \<open>dbio.go\<close> and of the logger in parsed form: a column is its name, its type
  and its constraint (\<open>Text []\<close> is the default \<open>''\<close>, \<open>Datetime ''now''\<close> the
  default \<open>(datetime('now'))\<close>); a foreign key is the referencing column, the parent
  table and the parent column.
\<close>

datatype default_value = Text string | Real string | Datetime string

datatype col_constraint = PrimaryKeyAutoincrement | NotNull | NotNullDefault default_value

type_synonym column = "string \<times> string \<times> col_constraint"

datatype stmt =
    Pragma string string
  | CreateTable bool string "column list" "(string \<times> string \<times> string) list" bool
  | CreateIndex bool bool string string "string list"
  | Insert string "(string \<times> string) list"

text \<open>
  \<open>CreateTable ine name columns foreign_keys strict\<close> is
  \<open>CREATE TABLE [IF NOT EXISTS] name (columns, foreign_keys) [STRICT]\<close>;
  \<open>CreateIndex unique ine name table columns\<close> is
  \<open>CREATE [UNIQUE] INDEX [IF NOT EXISTS] name ON table (columns)\<close>;
  \<open>Insert table row\<close> is \<open>INSERT INTO table (columns) VALUES (values)\<close>.
\<close>

datatype sql_error =
    TableExists string
  | IndexExists string
  | NameTaken string
  | NoSuchTable string
  | NoSuchColumn string
  | UniqueFailed string
  | NotADatabase
  | DatabaseClosed
  | Fault string

text \<open>
  A database is its schema (the CREATE statements in creation order, as the table
  \<open>sqlite_schema\<close> keeps them) and its rows (table name and column values, in
  insertion order). Tables the engine keeps for itself are left out.
\<close>

record database =
  schema :: "stmt list"
  table_rows :: "(string \<times> (string \<times> string) list) list"

definition empty_db :: database where
  "empty_db = \<lparr>schema = [], table_rows = []\<rparr>"

fun table_name :: "stmt \<Rightarrow> string option" where
  "table_name (CreateTable ine n cols fks strict) = Some n"
| "table_name _ = None"

fun index_name :: "stmt \<Rightarrow> string option" where
  "index_name (CreateIndex uq ine n t cols) = Some n"
| "index_name _ = None"

definition tables :: "database \<Rightarrow> string list" where
  "tables d = List.map_filter table_name (schema d)"

definition indices :: "database \<Rightarrow> string list" where
  "indices d = List.map_filter index_name (schema d)"

fun columns_in :: "stmt list \<Rightarrow> string \<Rightarrow> string list" where
  "columns_in [] t = []"
| "columns_in (CreateTable ine n cols fks strict # qs) t =
     (if n = t then map fst cols else columns_in qs t)"
| "columns_in (q # qs) t = columns_in qs t"

text \<open>The values a table's rows have in the given columns (a missing value is \<open>None\<close>).\<close>

definition keys_of :: "database \<Rightarrow> string \<Rightarrow> string list \<Rightarrow> string option list list" where
  "keys_of d t cols =
     map (\<lambda>(n, row). map (map_of row) cols) (filter (\<lambda>(n, row). n = t) (table_rows d))"

fun unique_on :: "stmt \<Rightarrow> string \<Rightarrow> string list option" where
  "unique_on (CreateIndex uq ine n t cols) t' = (if uq \<and> t = t' then Some cols else None)"
| "unique_on _ t' = None"

text \<open>
  One statement, run without any fault of the environment. An object that exists
  under IF NOT EXISTS is left alone, without error; an index needs its table and its
  columns, and a unique index needs the rows to be distinct on its columns. A foreign
  key to a table that does not exist is no error when the child table is created.
  Column types, NOT NULL and foreign keys are not checked on INSERT.
\<close>

fun sqlite_exec :: "database \<Rightarrow> stmt \<Rightarrow> sql_error + database" where
  "sqlite_exec d (Pragma k v) = Inr d"
| "sqlite_exec d (CreateTable ine n cols fks strict) =
     (if n \<in> set (tables d) then (if ine then Inr d else Inl (TableExists n))
      else if n \<in> set (indices d) then Inl (NameTaken n)
      else Inr (d\<lparr>schema := schema d @ [CreateTable ine n cols fks strict]\<rparr>))"
| "sqlite_exec d (CreateIndex uq ine n t cols) =
     (if t \<notin> set (tables d) then Inl (NoSuchTable t)
      else if n \<in> set (tables d) then Inl (NameTaken n)
      else if n \<in> set (indices d) then (if ine then Inr d else Inl (IndexExists n))
      else if \<not> list_all (\<lambda>c. c \<in> set (columns_in (schema d) t)) cols
        then Inl (NoSuchColumn t)
      else if uq \<and> \<not> distinct (keys_of d t cols) then Inl (UniqueFailed n)
      else Inr (d\<lparr>schema := schema d @ [CreateIndex uq ine n t cols]\<rparr>))"
| "sqlite_exec d (Insert t row) =
     (if t \<notin> set (tables d) then Inl (NoSuchTable t)
      else if \<not> list_all (\<lambda>c. c \<in> set (columns_in (schema d) t)) (map fst row)
        then Inl (NoSuchColumn t)
      else if \<not> list_all
          (\<lambda>cols. distinct (keys_of (d\<lparr>table_rows := table_rows d @ [(t, row)]\<rparr>) t cols))
          (List.map_filter (\<lambda>q. unique_on q t) (schema d))
        then Inl (UniqueFailed t)
      else Inr (d\<lparr>table_rows := table_rows d @ [(t, row)]\<rparr>))"

text \<open>The same step in the shape of \<open>db.Exec\<close>: an optional error and the new state.\<close>

definition sqlite_Exec :: "database \<Rightarrow> stmt \<Rightarrow> sql_error option \<times> database" where
  "sqlite_Exec d q = (case sqlite_exec d q of Inl e \<Rightarrow> (Some e, d) | Inr d' \<Rightarrow> (None, d'))"

section \<open>The process and its environment\<close>

text \<open>
  The state the code acts on: the file system, the open file descriptors (by path),
  the open database handles (by data source name), the standard streams, the
  statements passed to \<open>Exec\<close> so far, and whether the process has exited. The code
  never looks at a byte of a database image, so the type of bytes is a parameter.
\<close>

datatype proc_status = Running | Exited int

record 'b world =
  files :: "string \<rightharpoonup> 'b list"
  fds :: "string list"
  open_dbs :: "string set"
  stdin :: "'b list"
  stdin_reads :: nat
  stdout :: "'b list"
  stderr :: string
  exec_log :: "stmt list"
  status :: proc_status

text \<open>
  What the libraries answer, which the code does not decide: the result of \<open>Stat\<close> on
  the standard streams (an error or the mode bits), the name \<open>os.CreateTemp\<close> picks,
  whether and after how many bytes each \<open>io.Copy\<close> fails, whether \<open>sql.Open\<close>,
  \<open>Ping\<close>, \<open>db.Close\<close> and \<open>os.Open\<close> fail, which calls of \<open>Exec\<close> (counted
  over the process) fail for a reason of the environment, and the file format of the
  engine: the database an image holds, and the image written for a database.
\<close>

record 'b env =
  stdin_stat :: "string + 32 word"
  stdout_stat :: "string + 32 word"
  temp_name :: "string + string"
  copy_in :: "(nat \<times> string) option"
  sql_open :: "string option"
  ping :: "string option"
  exec_fault :: "nat \<Rightarrow> sql_error option"
  db_close :: "string option"
  os_open :: "string option"
  copy_out :: "(nat \<times> string) option"
  decode :: "'b list \<Rightarrow> database option"
  encode :: "database \<Rightarrow> 'b list"

datatype sqldb = SqlDB (dsn: string)

text \<open>The errors of \<open>dbio.go\<close>, one constructor for each \<open>fmt.Errorf\<close>.\<close>

datatype error =
    CreatingTempDb string
  | ReadingDbFromStdin string
  | OpeningDb string
  | PingingDb string
  | SchemaExec stmt sql_error
  | ClosingDbBeforeWrite string
  | OpeningDbFileForOutput string
  | WritingDbToStdout string

subsection \<open>Library calls\<close>

text \<open>\<open>os.CreateTemp\<close> creates a new, empty file and opens it; it never reuses a name.\<close>

definition os_CreateTemp :: "'b env \<Rightarrow> 'b world \<Rightarrow> (string + string) \<times> 'b world" where
  "os_CreateTemp ext w =
     (case temp_name ext of
        Inl e \<Rightarrow> (Inl e, w)
      | Inr p \<Rightarrow>
          if files w p \<noteq> None then (Inl ''file exists'', w)
          else (Inr p, w\<lparr>files := (files w)(p \<mapsto> []), fds := p # fds w\<rparr>))"

definition file_Close :: "string \<Rightarrow> 'b world \<Rightarrow> 'b world" where
  "file_Close p w = w\<lparr>fds := remove1 p (fds w)\<rparr>"

text \<open>\<open>os.Remove\<close>, whose error the code never reads: the path is unlinked.\<close>

definition os_Remove :: "string \<Rightarrow> 'b world \<Rightarrow> 'b world" where
  "os_Remove p w = w\<lparr>files := (files w)(p := None)\<rparr>"

definition file_contents :: "'b world \<Rightarrow> string \<Rightarrow> 'b list" where
  "file_contents w p = (case files w p of None \<Rightarrow> [] | Some c \<Rightarrow> c)"

text \<open>
  \<open>io.Copy(tmpFile, os.Stdin)\<close>: one read of standard input to its end, appended to
  the file; a failure after \<open>n\<close> bytes leaves those \<open>n\<close> bytes in the file.
\<close>

definition io_Copy_in :: "'b env \<Rightarrow> string \<Rightarrow> 'b world \<Rightarrow> string option \<times> 'b world" where
  "io_Copy_in ext p w =
     (case copy_in ext of
        None \<Rightarrow>
          (None, w\<lparr>files := (files w)(p \<mapsto> file_contents w p @ stdin w),
                    stdin := [], stdin_reads := Suc (stdin_reads w)\<rparr>)
      | Some (n, e) \<Rightarrow>
          (Some e, w\<lparr>files := (files w)(p \<mapsto> file_contents w p @ take n (stdin w)),
                      stdin := drop n (stdin w), stdin_reads := Suc (stdin_reads w)\<rparr>))"

definition os_Open :: "'b env \<Rightarrow> string \<Rightarrow> 'b world \<Rightarrow> string option \<times> 'b world" where
  "os_Open ext p w =
     (if files w p = None then (Some ''no such file or directory'', w)
      else (case os_open ext of
              Some e \<Rightarrow> (Some e, w)
            | None \<Rightarrow> (None, w\<lparr>fds := p # fds w\<rparr>)))"

text \<open>\<open>io.Copy(os.Stdout, f)\<close>.\<close>

definition io_Copy_out :: "'b env \<Rightarrow> string \<Rightarrow> 'b world \<Rightarrow> string option \<times> 'b world" where
  "io_Copy_out ext p w =
     (case copy_out ext of
        None \<Rightarrow> (None, w\<lparr>stdout := stdout w @ file_contents w p\<rparr>)
      | Some (n, e) \<Rightarrow> (Some e, w\<lparr>stdout := stdout w @ take n (file_contents w p)\<rparr>))"

text \<open>\<open>fmt.Fprintln(os.Stderr, s)\<close> and \<open>fmt.Fprintf(os.Stderr, s)\<close>, errors unread.\<close>

definition newline :: char where
  "newline = CHR 0x0A"

definition Fprint_stderr :: "string \<Rightarrow> 'b world \<Rightarrow> 'b world" where
  "Fprint_stderr s w = w\<lparr>stderr := stderr w @ s\<rparr>"

definition Fprintln_stderr :: "string \<Rightarrow> 'b world \<Rightarrow> 'b world" where
  "Fprintln_stderr s w = Fprint_stderr (s @ [newline]) w"

definition os_Exit :: "int \<Rightarrow> 'b world \<Rightarrow> 'b world" where
  "os_Exit code w = w\<lparr>status := Exited code\<rparr>"

definition sql_Open :: "'b env \<Rightarrow> string \<Rightarrow> 'b world \<Rightarrow> (string + sqldb) \<times> 'b world" where
  "sql_Open ext p w =
     (case sql_open ext of
        Some e \<Rightarrow> (Inl e, w)
      | None \<Rightarrow> (Inr (SqlDB p), w\<lparr>open_dbs := insert p (open_dbs w)\<rparr>))"

definition db_Ping :: "'b env \<Rightarrow> sqldb \<Rightarrow> 'b world \<Rightarrow> string option \<times> 'b world" where
  "db_Ping ext db w = (ping ext, w)"

text \<open>\<open>db.Close\<close> closes the handle whatever it returns; a second call returns nil.\<close>

definition db_Close :: "'b env \<Rightarrow> sqldb \<Rightarrow> 'b world \<Rightarrow> string option \<times> 'b world" where
  "db_Close ext db w =
     (if dsn db \<in> open_dbs w then (db_close ext, w\<lparr>open_dbs := open_dbs w - {dsn db}\<rparr>)
      else (None, w))"

text \<open>
  \<open>db.Exec\<close>: the statement is logged; a closed handle and a fault of the environment
  are errors; otherwise the engine reads the image at the handle's path (a missing
  file reads as empty), runs the statement and, if the database changed, writes the
  new image.
\<close>

definition db_Exec :: "'b env \<Rightarrow> sqldb \<Rightarrow> 'b world \<Rightarrow> stmt \<Rightarrow> sql_error option \<times> 'b world" where
  "db_Exec ext db w q =
     (let w1 = w\<lparr>exec_log := exec_log w @ [q]\<rparr> in
      if dsn db \<notin> open_dbs w then (Some DatabaseClosed, w1)
      else (case exec_fault ext (length (exec_log w)) of
              Some e \<Rightarrow> (Some e, w1)
            | None \<Rightarrow>
                (case decode ext (file_contents w (dsn db)) of
                   None \<Rightarrow> (Some NotADatabase, w1)
                 | Some d \<Rightarrow>
                     (case sqlite_exec d q of
                        Inl e \<Rightarrow> (Some e, w1)
                      | Inr d' \<Rightarrow>
                          (None, if d' = d then w1
                                 else w1\<lparr>files := (files w1)(dsn db \<mapsto> encode ext d')\<rparr>)))))"

section \<open>dbio.go\<close>

text \<open>\<open>os.ModeCharDevice\<close> is bit 21 of the 32-bit \<open>FileMode\<close>.\<close>

definition ModeCharDevice :: "32 word" where
  "ModeCharDevice = push_bit 21 1"

text \<open>
  \<open>isTerminal\<close>, applied to what \<open>f.Stat()\<close> returned: an error is ``not a
  terminal''.
\<close>

definition isTerminal :: "string + 32 word \<Rightarrow> bool" where
  "isTerminal st =
     (case st of
        Inl err \<Rightarrow> False
      | Inr mode \<Rightarrow> (mode AND ModeCharDevice) \<noteq> 0)"

text \<open>
  \<open>readDB(os.Stdin, terminal)\<close>: the only reader the code passes is standard input.
\<close>

definition readDB :: "'b env \<Rightarrow> bool \<Rightarrow> 'b world \<Rightarrow> (error + sqldb \<times> string) \<times> 'b world" where
  "readDB ext terminal w =
     (case os_CreateTemp ext w of
        (Inl err, w1) \<Rightarrow> (Inl (CreatingTempDb err), w1)
      | (Inr tmpPath, w1) \<Rightarrow>
          (case (if \<not> terminal then io_Copy_in ext tmpPath w1 else (None, w1)) of
             (Some err, w2) \<Rightarrow>
               (Inl (ReadingDbFromStdin err), os_Remove tmpPath (file_Close tmpPath w2))
           | (None, w2) \<Rightarrow>
               (case sql_Open ext tmpPath (file_Close tmpPath w2) of
                  (Inl err, w3) \<Rightarrow> (Inl (OpeningDb err), os_Remove tmpPath w3)
                | (Inr db, w3) \<Rightarrow>
                    (case db_Ping ext db w3 of
                       (Some err, w4) \<Rightarrow>
                         (Inl (PingingDb err), os_Remove tmpPath (snd (db_Close ext db w4)))
                     | (None, w4) \<Rightarrow> (Inr (db, tmpPath), w4)))))"

text \<open>
  The ten statements of \<open>createSchema\<close>, in the order of the source. The error of a
  failed statement carries the statement (the Go message quotes its first 60 bytes).
\<close>

definition stmts :: "stmt list" where
  "stmts =
    [Pragma ''temp_store'' ''MEMORY'',
     CreateTable True ''ident''
       [(''dataset_id'', ''INTEGER'', PrimaryKeyAutoincrement),
        (''bible_id'', ''TEXT'', NotNull),
        (''audio_OT_id'', ''TEXT'', NotNull),
        (''audio_NT_id'', ''TEXT'', NotNull),
        (''text_OT_id'', ''TEXT'', NotNull),
        (''text_NT_id'', ''TEXT'', NotNull),
        (''text_source'', ''TEXT'', NotNull),
        (''language_iso'', ''TEXT'', NotNull),
        (''asr_language_iso'', ''TEXT'', NotNullDefault (Text [])),
        (''version_code'', ''TEXT'', NotNull),
        (''language_id'', ''INTEGER'', NotNull),
        (''rolv_id'', ''INTEGER'', NotNull),
        (''alphabet'', ''TEXT'', NotNull),
        (''language_name'', ''TEXT'', NotNull),
        (''version_name'', ''TEXT'', NotNull)]
       [] True,
     CreateIndex True True ''ident_bible_idx'' ''ident'' [''bible_id''],
     CreateTable True ''scripts''
       [(''script_id'', ''INTEGER'', PrimaryKeyAutoincrement),
        (''dataset_id'', ''INTEGER'', NotNull),
        (''book_id'', ''TEXT'', NotNull),
        (''chapter_num'', ''INTEGER'', NotNull),
        (''chapter_end'', ''INTEGER'', NotNull),
        (''verse_str'', ''TEXT'', NotNull),
        (''verse_end'', ''TEXT'', NotNull),
        (''verse_num'', ''INTEGER'', NotNull),
        (''audio_file'', ''TEXT'', NotNull),
        (''script_num'', ''TEXT'', NotNull),
        (''usfm_style'', ''TEXT'', NotNullDefault (Text [])),
        (''person'', ''TEXT'', NotNullDefault (Text [])),
        (''actor'', ''TEXT'', NotNullDefault (Text [])),
        (''script_text'', ''TEXT'', NotNull),
        (''uroman'', ''TEXT'', NotNullDefault (Text [])),
        (''script_begin_ts'', ''REAL'', NotNullDefault (Real ''0.0'')),
        (''script_end_ts'', ''REAL'', NotNullDefault (Real ''0.0'')),
        (''fa_score'', ''REAL'', NotNullDefault (Real ''0.0''))]
       [(''dataset_id'', ''ident'', ''dataset_id'')] True,
     CreateIndex True True ''scripts_idx'' ''scripts''
       [''book_id'', ''chapter_num'', ''verse_str''],
     CreateIndex False True ''script_num_idx'' ''scripts'' [''script_num''],
     CreateIndex False True ''scripts_file_idx'' ''scripts'' [''audio_file''],
     CreateTable True ''words''
       [(''word_id'', ''INTEGER'', PrimaryKeyAutoincrement),
        (''script_id'', ''INTEGER'', NotNull),
        (''word_seq'', ''INTEGER'', NotNull),
        (''verse_num'', ''INTEGER'', NotNull),
        (''ttype'', ''TEXT'', NotNullDefault (Text ''W'')),
        (''word'', ''TEXT'', NotNull),
        (''uroman'', ''TEXT'', NotNullDefault (Text [])),
        (''word_begin_ts'', ''REAL'', NotNullDefault (Real ''0.0'')),
        (''word_end_ts'', ''REAL'', NotNullDefault (Real ''0.0'')),
        (''fa_score'', ''REAL'', NotNullDefault (Real ''0.0'')),
        (''word_enc'', ''TEXT'', NotNullDefault (Text [])),
        (''src_word_enc'', ''TEXT'', NotNullDefault (Text [])),
        (''word_multi_enc'', ''TEXT'', NotNullDefault (Text [])),
        (''src_word_multi_enc'', ''TEXT'', NotNullDefault (Text []))]
       [(''script_id'', ''scripts'', ''script_id'')] True,
     CreateIndex True True ''words_idx'' ''words'' [''script_id'', ''word_seq''],
     CreateTable True ''log''
       [(''log_id'', ''INTEGER'', PrimaryKeyAutoincrement),
        (''component'', ''TEXT'', NotNull),
        (''level'', ''TEXT'', NotNull),
        (''message'', ''TEXT'', NotNull),
        (''created_at'', ''TEXT'', NotNullDefault (Datetime ''now''))]
       [] True]"

text \<open>
  The loop of \<open>createSchema\<close>: each statement goes to \<open>Exec\<close> in turn, and the first
  error is returned at once. \<open>ex\<close> is the \<open>Exec\<close> method of the handle: \<open>db_Exec ext
  db\<close> on the process, \<open>sqlite_Exec\<close> on a database alone.
\<close>

fun exec_stmts ::
  "('s \<Rightarrow> stmt \<Rightarrow> sql_error option \<times> 's) \<Rightarrow> stmt list \<Rightarrow> 's \<Rightarrow> error option \<times> 's" where
  "exec_stmts ex [] s = (None, s)"
| "exec_stmts ex (q # qs) s =
     (case ex s q of
        (Some err, s') \<Rightarrow> (Some (SchemaExec q err), s')
      | (None, s') \<Rightarrow> exec_stmts ex qs s')"

definition createSchema :: "('s \<Rightarrow> stmt \<Rightarrow> sql_error option \<times> 's) \<Rightarrow> 's \<Rightarrow> error option \<times> 's" where
  "createSchema ex s = exec_stmts ex stmts s"

definition OpenDB :: "'b env \<Rightarrow> 'b world \<Rightarrow> (error + sqldb \<times> string) \<times> 'b world" where
  "OpenDB ext w =
     (case readDB ext (isTerminal (stdin_stat ext)) w of
        (Inl err, w1) \<Rightarrow> (Inl err, w1)
      | (Inr (db, dbPath), w1) \<Rightarrow>
          (case createSchema (db_Exec ext db) w1 of
             (Some err, w2) \<Rightarrow> (Inl err, os_Remove dbPath (snd (db_Close ext db w2)))
           | (None, w2) \<Rightarrow> (Inr (db, dbPath), w2)))"

definition writeDB :: "'b env \<Rightarrow> sqldb \<Rightarrow> string \<Rightarrow> 'b world \<Rightarrow> error option \<times> 'b world" where
  "writeDB ext db dbPath w =
     (case db_Close ext db w of
        (Some err, w1) \<Rightarrow> (Some (ClosingDbBeforeWrite err), w1)
      | (None, w1) \<Rightarrow>
          (case os_Open ext dbPath w1 of
             (Some err, w2) \<Rightarrow> (Some (OpeningDbFileForOutput err), w2)
           | (None, w2) \<Rightarrow>
               (case io_Copy_out ext dbPath w2 of
                  (Some err, w3) \<Rightarrow> (Some (WritingDbToStdout err), file_Close dbPath w3)
                | (None, w3) \<Rightarrow> (None, file_Close dbPath w3))))"

text \<open>\<open>OutputDB\<close>; the deferred \<open>os.Remove\<close> runs last on every path.\<close>

definition OutputDB :: "'b env \<Rightarrow> sqldb \<Rightarrow> string \<Rightarrow> 'b world \<Rightarrow> error option \<times> 'b world" where
  "OutputDB ext db dbPath w =
     (case (if isTerminal (stdout_stat ext) then
              (None,
               snd (db_Close ext db
                 (Fprintln_stderr ''pipe to a file or another component to capture the database''
                   (Fprintln_stderr ''stdout is a terminal, skipping database output'' w))))
            else writeDB ext db dbPath w) of
        (r, w') \<Rightarrow> (r, os_Remove dbPath w'))"

definition CloseDB :: "'b env \<Rightarrow> sqldb \<Rightarrow> string \<Rightarrow> 'b world \<Rightarrow> 'b world" where
  "CloseDB ext db dbPath w = os_Remove dbPath (snd (db_Close ext db w))"

text \<open>
  Acquire followed at once by Emit, as a pipeline stage that changes nothing runs
  them.
\<close>

definition pass_through :: "'b env \<Rightarrow> 'b world \<Rightarrow> error option \<times> 'b world" where
  "pass_through ext w =
     (case OpenDB ext w of
        (Inl err, w1) \<Rightarrow> (Some err, w1)
      | (Inr (db, dbPath), w1) \<Rightarrow> OutputDB ext db dbPath w1)"

section \<open>The logger\<close>

text \<open>
  A \<open>Logger\<close> holds a handle that may be nil (\<open>None\<close>) and a component name. The
  arguments of a logging call are taken as \<open>fmt.Sprint\<close> printed them.
\<close>

record Logger =
  l_db :: "sqldb option"
  l_component :: string

definition NewLogger :: "sqldb option \<Rightarrow> string \<Rightarrow> Logger" where
  "NewLogger db component = \<lparr>l_db = db, l_component = component\<rparr>"

fun joinArgs :: "string list \<Rightarrow> string" where
  "joinArgs [] = []"
| "joinArgs [a] = a"
| "joinArgs (a # b # parts) = a @ '' '' @ joinArgs (b # parts)"

text \<open>How \<open>%v\<close> prints an error of the engine.\<close>

fun error_text :: "sql_error \<Rightarrow> string" where
  "error_text (TableExists n) = ''table '' @ n @ '' already exists''"
| "error_text (IndexExists n) = ''index '' @ n @ '' already exists''"
| "error_text (NameTaken n) = ''there is already an object named '' @ n"
| "error_text (NoSuchTable n) = ''no such table: '' @ n"
| "error_text (NoSuchColumn n) = ''no such column in table '' @ n"
| "error_text (UniqueFailed n) = ''UNIQUE constraint failed: '' @ n"
| "error_text NotADatabase = ''file is not a database''"
| "error_text DatabaseClosed = ''sql: database is closed''"
| "error_text (Fault m) = m"

definition insertLog :: "'b env \<Rightarrow> Logger \<Rightarrow> string \<Rightarrow> string \<Rightarrow> 'b world \<Rightarrow> 'b world" where
  "insertLog ext l level message w =
     (case l_db l of
        None \<Rightarrow> w
      | Some db \<Rightarrow>
          (case db_Exec ext db w
                  (Insert ''log''
                     [(''component'', l_component l), (''level'', level), (''message'', message)]) of
             (Some err, w1) \<Rightarrow>
               Fprint_stderr
                 (''WARN ['' @ l_component l @ '']: failed to write log to db: '' @
                  error_text err @ [newline]) w1
           | (None, w1) \<Rightarrow> w1))"

definition Info :: "'b env \<Rightarrow> Logger \<Rightarrow> string list \<Rightarrow> 'b world \<Rightarrow> 'b world" where
  "Info ext l args w = insertLog ext l ''INFO'' (joinArgs args) w"

definition Warn :: "'b env \<Rightarrow> Logger \<Rightarrow> string list \<Rightarrow> 'b world \<Rightarrow> 'b world" where
  "Warn ext l args w = insertLog ext l ''WARN'' (joinArgs args) w"

definition Error :: "'b env \<Rightarrow> Logger \<Rightarrow> string list \<Rightarrow> 'b world \<Rightarrow> 'b world" where
  "Error ext l args w =
     Fprint_stderr (''ERROR ['' @ l_component l @ '']: '' @ joinArgs args @ [newline])
       (insertLog ext l ''ERROR'' (joinArgs args) w)"

definition Fatal :: "'b env \<Rightarrow> Logger \<Rightarrow> string list \<Rightarrow> 'b world \<Rightarrow> 'b world" where
  "Fatal ext l args w = os_Exit 1 (Error ext l args w)"

section \<open>Concrete environments\<close>

text \<open>
  The mode bits \<open>Stat\<close> reports for a pipe and for a terminal (a character device).
\<close>

definition ModeNamedPipe :: "32 word" where
  "ModeNamedPipe = push_bit 25 1"

definition ModeDevice :: "32 word" where
  "ModeDevice = push_bit 26 1"

definition tty_mode :: "32 word" where
  "tty_mode = ModeDevice OR ModeCharDevice"

text \<open>
  A file format to run the model on: an image is one cell that holds the database,
  and the empty file is the empty database.
\<close>

fun cell_decode :: "database list \<Rightarrow> database option" where
  "cell_decode [] = Some empty_db"
| "cell_decode [d] = Some d"
| "cell_decode (d # d' # ds) = None"

definition cell_encode :: "database \<Rightarrow> database list" where
  "cell_encode d = [d]"

text \<open>The name \<open>os.CreateTemp\<close> picks, and the handle \<open>sql.Open\<close> returns for it.\<close>

definition store :: string where
  "store = ''/tmp/arty-1.db''"

definition store_db :: sqldb where
  "store_db = SqlDB store"

text \<open>An environment in which both streams are pipes and no library call fails.\<close>

definition pipe_env :: "database env" where
  "pipe_env =
     \<lparr>stdin_stat = Inr ModeNamedPipe, stdout_stat = Inr ModeNamedPipe,
      temp_name = Inr store, copy_in = None, sql_open = None, ping = None,
      exec_fault = (\<lambda>k. None), db_close = None, os_open = None, copy_out = None,
      decode = cell_decode, encode = cell_encode\<rparr>"

text \<open>The same with both streams on a terminal.\<close>

definition tty_env :: "database env" where
  "tty_env = pipe_env\<lparr>stdin_stat := Inr tty_mode, stdout_stat := Inr tty_mode\<rparr>"

text \<open>A process that has done nothing yet, with nothing on standard input.\<close>

definition world0 :: "'b world" where
  "world0 =
     \<lparr>files = Map.empty, fds = [], open_dbs = {}, stdin = [], stdin_reads = 0,
      stdout = [], stderr = [], exec_log = [], status = Running\<rparr>"

text \<open>The database the bootstrap makes of the empty database: nine objects, no rows.\<close>

definition schema_db :: database where
  "schema_db = \<lparr>schema = tl stmts, table_rows = []\<rparr>"

text \<open>A database of some other tool: one table, one row, nothing of the schema.\<close>

definition notes_db :: database where
  "notes_db =
     \<lparr>schema = [CreateTable False ''notes'' [(''body'', ''TEXT'', NotNull)] [] False],
      table_rows = [(''notes'', [(''body'', ''hello'')])]\<rparr>"

text \<open>The process after a successful \<open>OpenDB\<close> on empty piped input.\<close>

definition world_open :: "database world" where
  "world_open =
     world0\<lparr>files := [store \<mapsto> [schema_db]],
            open_dbs := {store}, stdin_reads := 1, exec_log := stmts\<rparr>"

text \<open>A process with the image of \<open>notes_db\<close> waiting on standard input.\<close>

definition world_in :: "database world" where
  "world_in = world0\<lparr>stdin := [notes_db]\<rparr>"

text \<open>A process with an empty backing store and an open handle on it.\<close>

definition world_fresh :: "database world" where
  "world_fresh =
     world0\<lparr>files := [store \<mapsto> []], open_dbs := {store}\<rparr>"

text \<open>A database a pipeline stage has emitted: the schema and one dataset row.\<close>

definition stage_db :: database where
  "stage_db = \<lparr>schema = tl stmts, table_rows = [(''ident'', [(''bible_id'', ''ENGWEB'')])]\<rparr>"

text \<open>A database in which the name of an index of the schema is taken by a table.\<close>

definition clash_db :: database where
  "clash_db =
     \<lparr>schema = [CreateTable False ''ident_bible_idx'' [(''x'', ''TEXT'', NotNull)] [] False],
      table_rows = []\<rparr>"

text \<open>
  Environments in which one library call fails: the input copy, \<open>sql.Open\<close>,
  \<open>Ping\<close>, the output copy.
\<close>

definition copy_fail_env :: "database env" where
  "copy_fail_env = pipe_env\<lparr>copy_in := Some (0, ''read error'')\<rparr>"

definition open_fail_env :: "database env" where
  "open_fail_env = pipe_env\<lparr>sql_open := Some ''unknown driver''\<rparr>"

definition ping_fail_env :: "database env" where
  "ping_fail_env = pipe_env\<lparr>ping := Some ''bad connection''\<rparr>"

definition out_fail_env :: "database env" where
  "out_fail_env = pipe_env\<lparr>copy_out := Some (0, ''broken pipe'')\<rparr>"

text \<open>An environment in which the fourth call of \<open>Exec\<close> fails.\<close>

definition fault_env :: "database env" where
  "fault_env =
     pipe_env\<lparr>exec_fault := (\<lambda>k. if k = 3 then Some (Fault ''disk I/O error'') else None)\<rparr>"

text \<open>
  No library call fails during one \<open>OpenDB\<close> and one \<open>OutputDB\<close>: the temporary name
  is new, and the copies, the handle and the next ten calls of \<open>Exec\<close> meet no fault of
  the environment.
\<close>

definition calm :: "'b env \<Rightarrow> 'b world \<Rightarrow> bool" where
  "calm ext w =
     ((case temp_name ext of Inl e \<Rightarrow> False | Inr p \<Rightarrow> files w p = None) \<and>
      copy_in ext = None \<and> sql_open ext = None \<and> ping ext = None \<and>
      list_all (\<lambda>k. exec_fault ext (length (exec_log w) + k) = None) [0..<length stmts] \<and>
      db_close ext = None \<and> os_open ext = None \<and> copy_out ext = None)"

section \<open>Predicates on the statement list\<close>

text \<open>
  Dependency order: every foreign key of a table names a table created earlier in
  the list, and every index is on a table created earlier in the list.
\<close>

fun parents_first :: "string list \<Rightarrow> stmt list \<Rightarrow> bool" where
  "parents_first seen [] = True"
| "parents_first seen (CreateTable ine n cols fks strict # qs) =
     (list_all (\<lambda>(c, parent, pc). parent \<in> set seen) fks \<and> parents_first (n # seen) qs)"
| "parents_first seen (CreateIndex uq ine n t cols # qs) =
     (t \<in> set seen \<and> parents_first seen qs)"
| "parents_first seen (q # qs) = parents_first seen qs"

text \<open>The position of a table's CREATE statement in a list.\<close>

definition table_pos :: "stmt list \<Rightarrow> string \<Rightarrow> nat" where
  "table_pos qs n = length (takeWhile (\<lambda>q. table_name q \<noteq> Some n) qs)"

text \<open>
  A statement that may be repeated: a pragma, or a CREATE with IF NOT EXISTS.
\<close>

fun if_not_exists :: "stmt \<Rightarrow> bool" where
  "if_not_exists (Pragma k v) = True"
| "if_not_exists (CreateTable ine n cols fks strict) = ine"
| "if_not_exists (CreateIndex uq ine n t cols) = ine"
| "if_not_exists (Insert t row) = False"

text \<open>A database on which a statement changes nothing and returns no error.\<close>

definition noop :: "database \<Rightarrow> stmt \<Rightarrow> bool" where
  "noop d q = (sqlite_exec d q = Inr d)"

text \<open>A database that holds the whole schema: no statement of the bootstrap changes it.\<close>

definition has_schema :: "database \<Rightarrow> bool" where
  "has_schema d = list_all (noop d) stmts"

section \<open>Properties of ZeroFill\<close>

lemma slice_to_zeros:
  "0 \<le> k \<Longrightarrow> k \<le> 7 \<Longrightarrow> slice_to ''0000000'' k = Inr (replicate (nat k) CHR ''0'')"
proof -
  assume k: "0 \<le> k" "k \<le> 7"
  have z: "''0000000'' = replicate 7 CHR ''0''"
    by (simp add: numeral_eq_Suc)
  have "take (nat k) (replicate 7 CHR ''0'') = replicate (nat k) CHR ''0''"
    using k by (simp add: min_def)
  with k z show ?thesis
    by (simp add: slice_to_def)
qed

text \<open>
  C9. ZeroFill applied to "42" with size 5 returns "00042"; and whenever the string is
  already at least \<open>size\<close> bytes long, ZeroFill returns it unchanged.
\<close>

theorem ZeroFill_example_and_unchanged:
  "ZeroFill ''42'' 5 = Inr ''00042'' \<and>
   (sz \<le> int (length a) \<longrightarrow> ZeroFill a sz = Inr a)"
  by (simp add: ZeroFill_def slice_to_def)

theorem ZeroFill_example_and_unchanged_witness:
  "(3::int) \<le> int (length ''hello'') \<and> ZeroFill ''hello'' 3 = Inr ''hello''"
  using ZeroFill_example_and_unchanged [of 3 "''hello''"] by simp

text \<open>
  C10. When \<open>size - len(a)\<close> exceeds 7, the slice of the seven-character zero literal
  is out of range and ZeroFill panics instead of returning a padded string. ZeroFill
  returns at all exactly when \<open>size - len(a) \<le> 7\<close>, and for a gap between 0 and 7
  the result is \<open>a\<close> behind that many zeros, \<open>size\<close> bytes long.
\<close>

theorem ZeroFill_panics_beyond_seven:
  "(7 < sz - int (length a) \<longrightarrow>
      ZeroFill a sz = Inl (SliceBoundsOutOfRange (sz - int (length a)) 7)) \<and>
   ((\<exists>s. ZeroFill a sz = Inr s) \<longleftrightarrow> sz - int (length a) \<le> 7) \<and>
   (0 \<le> sz - int (length a) \<and> sz - int (length a) \<le> 7 \<longrightarrow>
      ZeroFill a sz = Inr (replicate (nat (sz - int (length a))) CHR ''0'' @ a) \<and>
      (\<forall>s. ZeroFill a sz = Inr s \<longrightarrow> int (length s) = sz))"
proof (intro conjI impI)
  assume "7 < sz - int (length a)"
  then show "ZeroFill a sz = Inl (SliceBoundsOutOfRange (sz - int (length a)) 7)"
    by (simp add: ZeroFill_def slice_to_def)
next
  show "(\<exists>s. ZeroFill a sz = Inr s) \<longleftrightarrow> sz - int (length a) \<le> 7"
    by (auto simp: ZeroFill_def slice_to_def Let_def split: if_splits)
next
  assume g: "0 \<le> sz - int (length a) \<and> sz - int (length a) \<le> 7"
  show "ZeroFill a sz = Inr (replicate (nat (sz - int (length a))) CHR ''0'' @ a)"
  proof (cases "int (length a) \<ge> sz")
    case True
    with g have "sz - int (length a) = 0" by simp
    with True show ?thesis by (simp add: ZeroFill_def)
  next
    case False
    with g slice_to_zeros [of "sz - int (length a)"] show ?thesis
      by (simp add: ZeroFill_def)
  qed
  then show "\<forall>s. ZeroFill a sz = Inr s \<longrightarrow> int (length s) = sz"
    using g by auto
qed

theorem ZeroFill_panics_beyond_seven_witness:
  "(7::int) < 10 - int (length ''42'') \<and>
   ZeroFill ''42'' 10 = Inl (SliceBoundsOutOfRange 8 7) \<and>
   ZeroFill ''42'' 9 = Inr ''000000042''"
  using ZeroFill_panics_beyond_seven [of 10 "''42''"]
    ZeroFill_panics_beyond_seven [of 9 "''42''"]
  by (simp add: numeral_eq_Suc)

section \<open>Evaluation on the concrete environments\<close>

lemma isTerminal_pipe: "\<not> isTerminal (Inr ModeNamedPipe)"
  by (simp add: isTerminal_def ModeNamedPipe_def ModeCharDevice_def)

lemma isTerminal_tty: "isTerminal (Inr tty_mode)"
  by (simp add: isTerminal_def tty_mode_def ModeDevice_def ModeCharDevice_def)

lemmas run_defs = readDB_def os_CreateTemp_def io_Copy_in_def file_contents_def
  file_Close_def sql_Open_def db_Ping_def db_Close_def os_Remove_def os_Open_def io_Copy_out_def
  db_Exec_def Let_def Fprintln_stderr_def Fprint_stderr_def

lemmas engine_defs = createSchema_def stmts_def empty_db_def tables_def indices_def
  keys_of_def cell_encode_def schema_db_def sqlite_Exec_def

lemmas env_defs = pipe_env_def tty_env_def copy_fail_env_def open_fail_env_def
  ping_fail_env_def out_fail_env_def fault_env_def store_db_def

lemma bootstrap_empty: "createSchema sqlite_Exec empty_db = (None, schema_db)"
  by (simp add: engine_defs)

lemma OpenDB_pipe_env: "OpenDB pipe_env world0 = (Inr (store_db, store), world_open)"
  by (simp add: OpenDB_def isTerminal_pipe env_defs world0_def world_open_def run_defs
      engine_defs)

lemma createSchema_fresh:
  "createSchema (db_Exec pipe_env store_db) world_fresh =
     (None, world_fresh\<lparr>files := [store \<mapsto> [schema_db]], exec_log := stmts\<rparr>)"
  by (simp add: env_defs world_fresh_def world0_def run_defs engine_defs)

section \<open>The logger on a nil handle\<close>

text \<open>
  C8 as stated fails. On a nil handle \<open>Error\<close> still prints its line to standard
  error, and \<open>Fatal\<close> prints it and ends the process: neither of the two is a no-op.
\<close>

theorem nil_logger_counterexample:
  "stderr (world0 :: database world) = [] \<and>
   stderr (Error pipe_env (NewLogger None ''loader'') [''disk'', ''full''] world0) =
     ''ERROR [loader]: disk full'' @ [newline] \<and>
   status (world0 :: database world) = Running \<and>
   status (Fatal pipe_env (NewLogger None ''loader'') [''disk'', ''full''] world0) = Exited 1"
  by (simp add: Error_def Fatal_def insertLog_def NewLogger_def world0_def Fprint_stderr_def
      os_Exit_def)

text \<open>
  C8, amended. On a logger with a nil handle no operation runs a statement or fails.
  \<open>Info\<close> and \<open>Warn\<close> change nothing at all; \<open>Error\<close> changes nothing but standard
  error, to which it appends the line \<open>ERROR [component]: message\<close>; \<open>Fatal\<close> does
  the same and then exits with status 1.
\<close>

theorem nil_logger:
  assumes "l_db l = None"
  shows "Info ext l args w = w \<and> Warn ext l args w = w \<and>
     Error ext l args w =
       w\<lparr>stderr := stderr w @ ''ERROR ['' @ l_component l @ '']: '' @ joinArgs args @ [newline]\<rparr> \<and>
     Fatal ext l args w =
       w\<lparr>stderr := stderr w @ ''ERROR ['' @ l_component l @ '']: '' @ joinArgs args @ [newline],
         status := Exited 1\<rparr>"
  using assms
  by (simp add: Info_def Warn_def Error_def Fatal_def insertLog_def Fprint_stderr_def os_Exit_def)

theorem nil_logger_witness:
  "l_db (NewLogger None ''loader'') = None \<and>
   Info pipe_env (NewLogger None ''loader'') [''a'', ''b''] world_open = world_open \<and>
   Warn pipe_env (NewLogger None ''loader'') [''a'', ''b''] world_open = world_open \<and>
   exec_log (Error pipe_env (NewLogger None ''loader'') [''a'', ''b''] world_open) = stmts \<and>
   stderr (Error pipe_env (NewLogger None ''loader'') [''a'', ''b''] world_open) =
     ''ERROR [loader]: a b'' @ [newline] \<and>
   status (Fatal pipe_env (NewLogger None ''loader'') [''a'', ''b''] world_open) = Exited 1"
  using nil_logger [of "NewLogger None ''loader''" pipe_env "[''a'', ''b'']" world_open]
  by (simp add: NewLogger_def world_open_def world0_def)

section \<open>OutputDB\<close>

text \<open>
  C3. Whatever the verdict on standard output, and whether the write succeeds or
  \<open>writeDB\<close> returns an error, the backing store is gone from the file system when
  \<open>OutputDB\<close> returns.
\<close>

theorem OutputDB_removes_store:
  "files (snd (OutputDB ext db dbPath w)) dbPath = None"
  by (simp add: OutputDB_def os_Remove_def split: prod.splits)

lemma OutputDB_copy_fails:
  "OutputDB out_fail_env store_db store world_open =
     (Some (WritingDbToStdout ''broken pipe''), world0\<lparr>stdin_reads := 1, exec_log := stmts\<rparr>)"
  by (simp add: OutputDB_def writeDB_def isTerminal_pipe env_defs world0_def world_open_def
      run_defs)

theorem OutputDB_removes_store_witness:
  "fst (OutputDB out_fail_env store_db store world_open) =
     Some (WritingDbToStdout ''broken pipe'') \<and>
   files world_open store = Some [schema_db] \<and>
   files (snd (OutputDB out_fail_env store_db store world_open)) store = None \<and>
   files (snd (OutputDB tty_env store_db store world_open)) store = None"
  using OutputDB_removes_store [of out_fail_env store_db store world_open]
    OutputDB_removes_store [of tty_env store_db store world_open]
    OutputDB_copy_fails
  by (simp add: world_open_def world0_def)

text \<open>
  C4. When standard output is a terminal, \<open>OutputDB\<close> writes nothing to standard
  output, appends exactly its two advisory lines to standard error, leaves the handle
  closed and returns no error.
\<close>

theorem OutputDB_terminal:
  assumes "isTerminal (stdout_stat ext)"
  shows "fst (OutputDB ext db dbPath w) = None \<and>
    stdout (snd (OutputDB ext db dbPath w)) = stdout w \<and>
    stderr (snd (OutputDB ext db dbPath w)) =
      stderr w @ ''stdout is a terminal, skipping database output'' @ [newline] @
        ''pipe to a file or another component to capture the database'' @ [newline] \<and>
    newline \<notin> set ''stdout is a terminal, skipping database output'' \<and>
    newline \<notin> set ''pipe to a file or another component to capture the database'' \<and>
    dsn db \<notin> open_dbs (snd (OutputDB ext db dbPath w))"
  using assms
  by (simp add: OutputDB_def os_Remove_def db_Close_def Fprintln_stderr_def Fprint_stderr_def newline_def)

theorem OutputDB_terminal_witness:
  "isTerminal (stdout_stat tty_env) \<and>
   fst (OutputDB tty_env store_db store world_open) = None \<and>
   stdout (snd (OutputDB tty_env store_db store world_open)) = [] \<and>
   stderr (snd (OutputDB tty_env store_db store world_open)) =
     ''stdout is a terminal, skipping database output'' @ [newline] @
     ''pipe to a file or another component to capture the database'' @ [newline] \<and>
   store \<notin> open_dbs (snd (OutputDB tty_env store_db store world_open))"
proof -
  have t: "isTerminal (stdout_stat tty_env)"
    by (simp add: env_defs isTerminal_tty)
  from OutputDB_terminal [OF t, of store_db store world_open] t show ?thesis
    by (simp add: world_open_def world0_def store_db_def)
qed

section \<open>Failure paths of OpenDB\<close>

lemma db_Exec_files_other:
  "p \<noteq> dsn db \<Longrightarrow> files (snd (db_Exec ext db w q)) p = files w p"
  by (simp add: db_Exec_def Let_def split: option.splits sum.splits)

lemma exec_stmts_files_other:
  "p \<noteq> dsn db \<Longrightarrow> files (snd (exec_stmts (db_Exec ext db) qs w)) p = files w p"
proof (induction qs arbitrary: w)
  case Nil
  then show ?case by simp
next
  case (Cons q qs)
  show ?case
  proof (cases "db_Exec ext db w q")
    case (Pair r w')
    with Cons db_Exec_files_other [of p db ext w q] show ?thesis
      by (cases r) auto
  qed
qed

lemma readDB_ok_dsn:
  "readDB ext t w = (Inr (db, p), w') \<Longrightarrow> dsn db = p \<and> files w p = None"
  by (auto simp: readDB_def os_CreateTemp_def sql_Open_def db_Ping_def
      split: sum.splits option.splits if_splits prod.splits)

lemma readDB_err_files:
  "readDB ext t w = (Inl e, w') \<Longrightarrow> files w' = files w"
  by (auto simp: readDB_def os_CreateTemp_def sql_Open_def db_Ping_def io_Copy_in_def
      os_Remove_def file_Close_def db_Close_def
      split: sum.splits option.splits if_splits prod.splits)

lemma readDB_ok_files:
  "readDB ext t w = (Inr (db, p), w') \<Longrightarrow> p' \<noteq> p \<Longrightarrow> files w' p' = files w p'"
  by (auto simp: readDB_def os_CreateTemp_def sql_Open_def db_Ping_def io_Copy_in_def
      os_Remove_def file_Close_def db_Close_def
      split: sum.splits option.splits if_splits prod.splits)

text \<open>
  C2. Whenever \<open>OpenDB\<close> returns an error (the input copy, \<open>sql.Open\<close>, \<open>Ping\<close> or
  a statement of the schema failed, or no temporary file could be created), the file
  system is as it was before the call: the backing store has been removed, and no
  other path was touched.
\<close>

theorem OpenDB_failure_leaves_no_file:
  assumes "fst (OpenDB ext w) = Inl err"
  shows "files (snd (OpenDB ext w)) = files w"
proof -
  obtain w' where od: "OpenDB ext w = (Inl err, w')"
    using assms by (cases "OpenDB ext w") simp
  have "files w' = files w"
  proof (cases "readDB ext (isTerminal (stdin_stat ext)) w")
    case (Pair r w1)
    show ?thesis
    proof (cases r)
      case (Inl e)
      with Pair od readDB_err_files [of ext _ w e w1] show ?thesis
        by (simp add: OpenDB_def)
    next
      case (Inr hp)
      obtain db p where hp: "hp = (db, p)" by (cases hp)
      from Pair Inr hp have rd: "readDB ext (isTerminal (stdin_stat ext)) w = (Inr (db, p), w1)"
        by simp
      from readDB_ok_dsn [OF rd] have d: "dsn db = p" and fresh: "files w p = None" by simp_all
      obtain r2 w2 where cs: "createSchema (db_Exec ext db) w1 = (r2, w2)"
        by (cases "createSchema (db_Exec ext db) w1")
      from od rd cs have w': "w' = os_Remove p (snd (db_Close ext db w2))"
        by (cases r2) (auto simp: OpenDB_def)
      have "files w' p' = files w p'" for p'
      proof (cases "p' = p")
        case True
        with w' fresh show ?thesis by (simp add: os_Remove_def)
      next
        case False
        with d have "files w2 p' = files w1 p'"
          using exec_stmts_files_other [of p' db ext stmts w1] cs
          by (simp add: createSchema_def)
        moreover have "files w1 p' = files w p'"
          using readDB_ok_files [OF rd False] .
        ultimately show ?thesis
          using w' False by (simp add: os_Remove_def db_Close_def)
      qed
      then show ?thesis by (rule ext)
    qed
  qed
  with od show ?thesis by simp
qed

lemma OpenDB_copy_fails:
  "fst (OpenDB copy_fail_env world_in) = Inl (ReadingDbFromStdin ''read error'')"
  by (simp add: OpenDB_def isTerminal_pipe env_defs world0_def world_in_def run_defs)

lemma OpenDB_open_fails:
  "fst (OpenDB open_fail_env world_in) = Inl (OpeningDb ''unknown driver'')"
  by (simp add: OpenDB_def isTerminal_pipe env_defs world0_def world_in_def run_defs)

lemma OpenDB_ping_fails:
  "fst (OpenDB ping_fail_env world_in) = Inl (PingingDb ''bad connection'')"
  by (simp add: OpenDB_def isTerminal_pipe env_defs world0_def world_in_def run_defs)

lemma OpenDB_schema_fails:
  "fst (OpenDB fault_env world_in) = Inl (SchemaExec (stmts ! 3) (Fault ''disk I/O error''))"
  by (simp add: OpenDB_def isTerminal_pipe env_defs world0_def world_in_def run_defs
      engine_defs notes_db_def)

theorem OpenDB_failure_leaves_no_file_witness:
  "fst (OpenDB copy_fail_env world_in) = Inl (ReadingDbFromStdin ''read error'') \<and>
   files (snd (OpenDB copy_fail_env world_in)) = Map.empty \<and>
   fst (OpenDB open_fail_env world_in) = Inl (OpeningDb ''unknown driver'') \<and>
   files (snd (OpenDB open_fail_env world_in)) = Map.empty \<and>
   fst (OpenDB ping_fail_env world_in) = Inl (PingingDb ''bad connection'') \<and>
   files (snd (OpenDB ping_fail_env world_in)) = Map.empty \<and>
   fst (OpenDB fault_env world_in) = Inl (SchemaExec (stmts ! 3) (Fault ''disk I/O error'')) \<and>
   files (snd (OpenDB fault_env world_in)) = Map.empty"
  using OpenDB_failure_leaves_no_file [OF OpenDB_copy_fails]
    OpenDB_failure_leaves_no_file [OF OpenDB_open_fails]
    OpenDB_failure_leaves_no_file [OF OpenDB_ping_fails]
    OpenDB_failure_leaves_no_file [OF OpenDB_schema_fails]
    OpenDB_copy_fails OpenDB_open_fails OpenDB_ping_fails OpenDB_schema_fails
  by (simp add: world_in_def world0_def)

section \<open>The statement list and the loop of createSchema\<close>

lemma exec_stmts_append:
  "exec_stmts ex (qs @ rs) s =
     (case exec_stmts ex qs s of
        (Some e, s') \<Rightarrow> (Some e, s')
      | (None, s') \<Rightarrow> exec_stmts ex rs s')"
  by (induction qs arbitrary: s) (auto split: prod.splits option.splits)

lemma exec_stmts_fail_fast:
  assumes "k < length qs" and "exec_stmts ex (take k qs) s = (None, sk)"
    and "ex sk (qs ! k) = (Some e, s')"
  shows "exec_stmts ex qs s = (Some (SchemaExec (qs ! k) e), s')"
proof -
  from assms(1) have "qs = take k qs @ (qs ! k) # drop (Suc k) qs"
    by (rule id_take_nth_drop)
  then have "exec_stmts ex qs s = exec_stmts ex (take k qs @ (qs ! k) # drop (Suc k) qs) s"
    by simp
  also have "\<dots> = (Some (SchemaExec (qs ! k) e), s')"
    using assms(2,3) by (simp add: exec_stmts_append)
  finally show ?thesis .
qed

lemma db_Exec_log:
  "exec_log (snd (db_Exec ext db w q)) = exec_log w @ [q]"
  by (simp add: db_Exec_def Let_def split: option.splits sum.splits)

lemma exec_stmts_log:
  "exec_stmts (db_Exec ext db) qs w = (r, w') \<Longrightarrow>
   (case r of
      None \<Rightarrow> exec_log w' = exec_log w @ qs
    | Some err \<Rightarrow> (\<exists>k<length qs. \<exists>e. err = SchemaExec (qs ! k) e \<and>
         exec_log w' = exec_log w @ take (Suc k) qs))"
proof (induction qs arbitrary: w)
  case Nil
  then show ?case by auto
next
  case (Cons q qs)
  obtain r1 w1 where st: "db_Exec ext db w q = (r1, w1)"
    by (cases "db_Exec ext db w q")
  with db_Exec_log [of ext db w q] have lg: "exec_log w1 = exec_log w @ [q]"
    by simp
  show ?case
  proof (cases r1)
    case (Some e)
    with st Cons.prems have "r = Some (SchemaExec q e)" and "w' = w1"
      by simp_all
    with lg show ?thesis
      by (auto intro!: exI [of _ 0])
  next
    case None
    with st Cons.prems have run: "exec_stmts (db_Exec ext db) qs w1 = (r, w')"
      by simp
    show ?thesis
    proof (cases r)
      case None
      with Cons.IH [OF run] lg show ?thesis by simp
    next
      case (Some err)
      with Cons.IH [OF run] obtain k e where "k < length qs" "err = SchemaExec (qs ! k) e"
        "exec_log w' = exec_log w1 @ take (Suc k) qs"
        by auto
      with lg Some show ?thesis
        by (auto intro!: exI [of _ "Suc k"])
    qed
  qed
qed

lemma exec_stmts_Cons_None:
  assumes "exec_stmts ex (q # qs) s = (None, s')"
  shows "\<exists>s1. ex s q = (None, s1) \<and> exec_stmts ex qs s1 = (None, s')"
proof -
  obtain r s1 where s: "ex s q = (r, s1)"
    by (cases "ex s q")
  with assms have r: "r = None"
    by (cases r) simp_all
  with s assms show ?thesis by simp
qed

lemma exec_stmts_success_fold:
  "exec_stmts ex qs s = (None, s') \<Longrightarrow> s' = foldl (\<lambda>s q. snd (ex s q)) s qs"
proof (induction qs arbitrary: s)
  case Nil
  then show ?case by simp
next
  case (Cons q qs)
  from exec_stmts_Cons_None [OF Cons.prems] obtain s1 where
    st: "ex s q = (None, s1)" and run: "exec_stmts ex qs s1 = (None, s')"
    by blast
  from Cons.IH [OF run] st show ?case by simp
qed

text \<open>
  C6. \<open>createSchema\<close> runs a fixed list of ten statements: a pragma, then the nine
  structural statements, four tables and five indices. Every foreign key names a table
  created earlier in the list and every index is on a table created earlier (ident
  before scripts, scripts before words). A run that returns no error has applied every
  statement of the list in order: its final state is the states of the ten calls of
  \<open>Exec\<close> chained, on the process the ten statements have been appended to the log
  of executed statements, and on the empty database the result is the nine objects of
  the schema. If the first \<open>k\<close> statements succeed and statement \<open>k\<close> fails,
  \<open>createSchema\<close> returns the error of statement \<open>k\<close> in the state that failed call
  left; and on the process, an error return means that the statements passed to
  \<open>Exec\<close> are exactly those up to the failed one.
\<close>

theorem createSchema_ordered_fail_fast:
  "length stmts = 10 \<and>
   stmts ! 0 = Pragma ''temp_store'' ''MEMORY'' \<and>
   List.map_filter table_name stmts = [''ident'', ''scripts'', ''words'', ''log''] \<and>
   List.map_filter index_name stmts =
     [''ident_bible_idx'', ''scripts_idx'', ''script_num_idx'', ''scripts_file_idx'', ''words_idx''] \<and>
   parents_first [] stmts \<and>
   table_pos stmts ''ident'' < table_pos stmts ''scripts'' \<and>
   table_pos stmts ''scripts'' < table_pos stmts ''words'' \<and>
   (fst (createSchema ex s) = None \<longrightarrow>
      snd (createSchema ex s) = foldl (\<lambda>s q. snd (ex s q)) s stmts) \<and>
   (fst (createSchema (db_Exec ext db) w) = None \<longrightarrow>
      exec_log (snd (createSchema (db_Exec ext db) w)) = exec_log w @ stmts) \<and>
   createSchema sqlite_Exec empty_db = (None, \<lparr>schema = tl stmts, table_rows = []\<rparr>) \<and>
   (k < length stmts \<and> exec_stmts ex (take k stmts) s = (None, sk) \<and>
    ex sk (stmts ! k) = (Some e, s') \<longrightarrow>
      createSchema ex s = (Some (SchemaExec (stmts ! k) e), s')) \<and>
   (fst (createSchema (db_Exec ext db) w) = Some err \<longrightarrow>
      (\<exists>j<length stmts. \<exists>e'. err = SchemaExec (stmts ! j) e' \<and>
         exec_log (snd (createSchema (db_Exec ext db) w)) = exec_log w @ take (Suc j) stmts))"
proof -
  have shape: "length stmts = 10 \<and>
   stmts ! 0 = Pragma ''temp_store'' ''MEMORY'' \<and>
   List.map_filter table_name stmts = [''ident'', ''scripts'', ''words'', ''log''] \<and>
   List.map_filter index_name stmts =
     [''ident_bible_idx'', ''scripts_idx'', ''script_num_idx'', ''scripts_file_idx'', ''words_idx''] \<and>
   parents_first [] stmts \<and>
   table_pos stmts ''ident'' < table_pos stmts ''scripts'' \<and>
   table_pos stmts ''scripts'' < table_pos stmts ''words''"
    by (simp add: stmts_def table_pos_def)
  have fold: "fst (createSchema ex s) = None \<longrightarrow>
      snd (createSchema ex s) = foldl (\<lambda>s q. snd (ex s q)) s stmts"
  proof
    assume "fst (createSchema ex s) = None"
    then have "exec_stmts ex stmts s = (None, snd (createSchema ex s))"
      by (cases "exec_stmts ex stmts s") (simp add: createSchema_def)
    from exec_stmts_success_fold [OF this]
    show "snd (createSchema ex s) = foldl (\<lambda>s q. snd (ex s q)) s stmts" .
  qed
  have ok: "fst (createSchema (db_Exec ext db) w) = None \<longrightarrow>
      exec_log (snd (createSchema (db_Exec ext db) w)) = exec_log w @ stmts"
  proof
    assume "fst (createSchema (db_Exec ext db) w) = None"
    then have "exec_stmts (db_Exec ext db) stmts w =
        (None, snd (createSchema (db_Exec ext db) w))"
      by (cases "exec_stmts (db_Exec ext db) stmts w") (simp add: createSchema_def)
    from exec_stmts_log [OF this]
    show "exec_log (snd (createSchema (db_Exec ext db) w)) = exec_log w @ stmts"
      by simp
  qed
  have boot: "createSchema sqlite_Exec empty_db = (None, \<lparr>schema = tl stmts, table_rows = []\<rparr>)"
    using bootstrap_empty by (simp add: schema_db_def)
  have ff: "k < length stmts \<and> exec_stmts ex (take k stmts) s = (None, sk) \<and>
    ex sk (stmts ! k) = (Some e, s') \<longrightarrow>
      createSchema ex s = (Some (SchemaExec (stmts ! k) e), s')"
    using exec_stmts_fail_fast [of k stmts ex s sk e s']
    by (simp add: createSchema_def)
  have lg: "fst (createSchema (db_Exec ext db) w) = Some err \<longrightarrow>
      (\<exists>j<length stmts. \<exists>e'. err = SchemaExec (stmts ! j) e' \<and>
         exec_log (snd (createSchema (db_Exec ext db) w)) = exec_log w @ take (Suc j) stmts)"
  proof
    assume f: "fst (createSchema (db_Exec ext db) w) = Some err"
    obtain w' where "exec_stmts (db_Exec ext db) stmts w = (Some err, w')"
      using f by (cases "exec_stmts (db_Exec ext db) stmts w") (simp add: createSchema_def)
    from exec_stmts_log [OF this] this
    show "\<exists>j<length stmts. \<exists>e'. err = SchemaExec (stmts ! j) e' \<and>
         exec_log (snd (createSchema (db_Exec ext db) w)) = exec_log w @ take (Suc j) stmts"
      by (simp add: createSchema_def)
  qed
  from shape fold ok boot ff lg show ?thesis by blast
qed

lemma clash_prefix:
  "exec_stmts sqlite_Exec (take 2 stmts) clash_db =
     (None, clash_db\<lparr>schema := schema clash_db @ [stmts ! 1]\<rparr>)"
  by (simp add: clash_db_def engine_defs)

lemma clash_step:
  "sqlite_Exec (clash_db\<lparr>schema := schema clash_db @ [stmts ! 1]\<rparr>) (stmts ! 2) =
     (Some (NameTaken ''ident_bible_idx''), clash_db\<lparr>schema := schema clash_db @ [stmts ! 1]\<rparr>)"
  by (simp add: clash_db_def engine_defs)

lemma fault_run:
  "createSchema (db_Exec fault_env store_db) world_fresh =
     (Some (SchemaExec (stmts ! 3) (Fault ''disk I/O error'')),
      world_fresh\<lparr>files := [store \<mapsto> [\<lparr>schema = take 2 (tl stmts), table_rows = []\<rparr>]],
                  exec_log := take 4 stmts\<rparr>)"
  by (simp add: env_defs world_fresh_def world0_def run_defs engine_defs)

theorem createSchema_ordered_fail_fast_witness:
  "(2::nat) < length stmts \<and>
   exec_stmts sqlite_Exec (take 2 stmts) clash_db =
     (None, clash_db\<lparr>schema := schema clash_db @ [stmts ! 1]\<rparr>) \<and>
   sqlite_Exec (clash_db\<lparr>schema := schema clash_db @ [stmts ! 1]\<rparr>) (stmts ! 2) =
     (Some (NameTaken ''ident_bible_idx''), clash_db\<lparr>schema := schema clash_db @ [stmts ! 1]\<rparr>) \<and>
   createSchema sqlite_Exec clash_db =
     (Some (SchemaExec (stmts ! 2) (NameTaken ''ident_bible_idx'')),
      clash_db\<lparr>schema := schema clash_db @ [stmts ! 1]\<rparr>) \<and>
   fst (createSchema (db_Exec fault_env store_db) world_fresh) =
     Some (SchemaExec (stmts ! 3) (Fault ''disk I/O error'')) \<and>
   exec_log (snd (createSchema (db_Exec fault_env store_db) world_fresh)) =
     take 4 stmts \<and>
   (\<exists>j<length stmts. \<exists>e'.
      SchemaExec (stmts ! 3) (Fault ''disk I/O error'') = SchemaExec (stmts ! j) e' \<and>
      exec_log (snd (createSchema (db_Exec fault_env store_db) world_fresh)) =
        exec_log world_fresh @ take (Suc j) stmts) \<and>
   fst (createSchema (db_Exec pipe_env store_db) world_fresh) = None \<and>
   exec_log (snd (createSchema (db_Exec pipe_env store_db) world_fresh)) =
     exec_log world_fresh @ stmts \<and>
   snd (createSchema (db_Exec pipe_env store_db) world_fresh) =
     foldl (\<lambda>s q. snd (db_Exec pipe_env store_db s q)) world_fresh stmts"
proof -
  note t = createSchema_ordered_fail_fast [where k = 2 and ex = sqlite_Exec and s = clash_db
      and sk = "clash_db\<lparr>schema := schema clash_db @ [stmts ! 1]\<rparr>"
      and e = "NameTaken ''ident_bible_idx''"
      and s' = "clash_db\<lparr>schema := schema clash_db @ [stmts ! 1]\<rparr>"
      and ext = fault_env and db = store_db and w = world_fresh
      and err = "SchemaExec (stmts ! 3) (Fault ''disk I/O error'')"]
  note u = createSchema_ordered_fail_fast [where ex = "db_Exec pipe_env store_db"
      and s = world_fresh and ext = pipe_env and db = store_db and w = world_fresh]
  have a: "(2::nat) < length stmts"
    by (simp add: stmts_def)
  have f: "fst (createSchema (db_Exec fault_env store_db) world_fresh) =
     Some (SchemaExec (stmts ! 3) (Fault ''disk I/O error''))"
    using fault_run by simp
  have l: "exec_log (snd (createSchema (db_Exec fault_env store_db) world_fresh)) =
     take 4 stmts"
    using fault_run by simp
  have g: "fst (createSchema (db_Exec pipe_env store_db) world_fresh) = None"
    using createSchema_fresh by simp
  from t u a clash_prefix clash_step f l g show ?thesis
    by blast
qed

section \<open>Repeating the bootstrap on a database\<close>

lemma schema_update_neq: "d\<lparr>schema := schema d @ [q]\<rparr> \<noteq> d"
proof
  assume "d\<lparr>schema := schema d @ [q]\<rparr> = d"
  then have "schema (d\<lparr>schema := schema d @ [q]\<rparr>) = schema d" by simp
  then show False by simp
qed

lemma tables_append: "tables (d\<lparr>schema := schema d @ [q]\<rparr>) =
    tables d @ (case table_name q of None \<Rightarrow> [] | Some n \<Rightarrow> [n])"
  by (simp add: tables_def List.map_filter_def split: option.splits)

lemma indices_append: "indices (d\<lparr>schema := schema d @ [q]\<rparr>) =
    indices d @ (case index_name q of None \<Rightarrow> [] | Some n \<Rightarrow> [n])"
  by (simp add: indices_def List.map_filter_def split: option.splits)

lemma noop_Pragma: "noop d (Pragma k v)"
  by (simp add: noop_def)

lemma noop_CreateTable:
  "noop d (CreateTable True n cols fks strict) \<longleftrightarrow> n \<in> set (tables d)"
  by (simp add: noop_def schema_update_neq)

lemma noop_CreateIndex:
  "noop d (CreateIndex uq True n t cols) \<longleftrightarrow>
     t \<in> set (tables d) \<and> n \<notin> set (tables d) \<and> n \<in> set (indices d)"
  by (auto simp: noop_def schema_update_neq)

text \<open>What a successful statement of the bootstrap's kind does to the database.\<close>

lemma sqlite_exec_grows:
  assumes "sqlite_exec d q = Inr d'" and "if_not_exists q"
  shows "d' = d \<or> d' = d\<lparr>schema := schema d @ [q]\<rparr>"
  using assms by (cases q) (auto split: if_splits)

lemma sqlite_exec_then_noop:
  assumes "sqlite_exec d q = Inr d'" and "if_not_exists q"
  shows "noop d' q"
proof (cases q)
  case (Pragma k v)
  then show ?thesis by (simp add: noop_Pragma)
next
  case (CreateTable ine n cols fks strict)
  with assms show ?thesis
    by (auto simp: noop_CreateTable tables_append split: if_splits)
next
  case (CreateIndex uq ine n t cols)
  with assms show ?thesis
    by (auto simp: noop_CreateIndex tables_append indices_append split: if_splits)
next
  case (Insert t row)
  with assms show ?thesis by simp
qed

lemma noop_preserved:
  assumes "noop d q" and "if_not_exists q" and "sqlite_exec d q2 = Inr d'"
    and "if_not_exists q2"
    and "\<forall>n. index_name q = Some n \<longrightarrow> table_name q2 \<noteq> Some n"
  shows "noop d' q"
proof -
  from sqlite_exec_grows [OF assms(3,4)]
  consider "d' = d" | "d' = d\<lparr>schema := schema d @ [q2]\<rparr>" by blast
  then show ?thesis
  proof cases
    case 1
    with assms(1) show ?thesis by simp
  next
    case 2
    show ?thesis
    proof (cases q)
      case (Pragma k v)
      then show ?thesis by (simp add: noop_Pragma)
    next
      case (CreateTable ine n cols fks strict)
      with assms(1,2) 2 show ?thesis
        by (auto simp: noop_CreateTable tables_append split: option.splits)
    next
      case (CreateIndex uq ine n t cols)
      with assms(1,2,5) 2 show ?thesis
        by (auto simp: noop_CreateIndex tables_append indices_append split: option.splits)
    next
      case (Insert t row)
      with assms(2) show ?thesis by simp
    qed
  qed
qed

lemma sqlite_Exec_None:
  "sqlite_Exec d q = (None, d') \<longleftrightarrow> sqlite_exec d q = Inr d'"
  by (auto simp: sqlite_Exec_def split: sum.splits)

lemma exec_stmts_sqlite_Cons:
  assumes "exec_stmts sqlite_Exec (q # qs) d = (None, d')"
  shows "\<exists>d1. sqlite_exec d q = Inr d1 \<and> exec_stmts sqlite_Exec qs d1 = (None, d')"
proof -
  obtain r d1 where s: "sqlite_Exec d q = (r, d1)"
    by (cases "sqlite_Exec d q")
  with assms have r: "r = None"
    by (cases r) simp_all
  with s assms have "exec_stmts sqlite_Exec qs d1 = (None, d')"
    by simp
  with s r sqlite_Exec_None [of d q d1] show ?thesis
    by blast
qed

lemma set_map_filter_Cons:
  "set (List.map_filter f qs) \<subseteq> set (List.map_filter f (q # qs))"
  by (auto simp: List.map_filter_simps split: option.splits)

lemma set_map_filter_head:
  "f q = Some n \<Longrightarrow> n \<in> set (List.map_filter f (q # qs))"
  by (simp add: List.map_filter_simps)

lemma run_noop_preserved:
  assumes "exec_stmts sqlite_Exec qs d = (None, d')" and "noop d q" and "if_not_exists q"
    and "list_all if_not_exists qs"
    and "\<forall>n. index_name q = Some n \<longrightarrow> n \<notin> set (List.map_filter table_name qs)"
  shows "noop d' q"
  using assms
proof (induction qs arbitrary: d)
  case Nil
  then show ?case by simp
next
  case (Cons q2 qs)
  from exec_stmts_sqlite_Cons [OF Cons.prems(1)]
  obtain d1 where st: "sqlite_exec d q2 = Inr d1"
    and run: "exec_stmts sqlite_Exec qs d1 = (None, d')"
    by blast
  have "noop d1 q"
  proof (rule noop_preserved [OF Cons.prems(2,3) st])
    show "if_not_exists q2" using Cons.prems(4) by simp
    show "\<forall>n. index_name q = Some n \<longrightarrow> table_name q2 \<noteq> Some n"
      using Cons.prems(5) set_map_filter_head [of table_name q2 _ qs] by blast
  qed
  moreover have "\<forall>n. index_name q = Some n \<longrightarrow> n \<notin> set (List.map_filter table_name qs)"
    using Cons.prems(5) set_map_filter_Cons [of table_name qs q2] by blast
  ultimately show ?case
    using Cons.IH [OF run] Cons.prems(3,4) by simp
qed

lemma run_all_noop:
  assumes "exec_stmts sqlite_Exec qs d = (None, d')" and "list_all if_not_exists qs"
    and "set (List.map_filter index_name qs) \<inter> set (List.map_filter table_name qs) = {}"
  shows "list_all (noop d') qs"
  using assms
proof (induction qs arbitrary: d)
  case Nil
  then show ?case by simp
next
  case (Cons q qs)
  from exec_stmts_sqlite_Cons [OF Cons.prems(1)]
  obtain d1 where st: "sqlite_exec d q = Inr d1"
    and run: "exec_stmts sqlite_Exec qs d1 = (None, d')"
    by blast
  from Cons.prems(2) have q: "if_not_exists q" and qs: "list_all if_not_exists qs"
    by simp_all
  have disj: "set (List.map_filter index_name qs) \<inter> set (List.map_filter table_name qs) = {}"
    using Cons.prems(3) set_map_filter_Cons [of table_name qs q]
      set_map_filter_Cons [of index_name qs q] by blast
  have "noop d1 q"
    using sqlite_exec_then_noop [OF st q] .
  moreover have "\<forall>n. index_name q = Some n \<longrightarrow> n \<notin> set (List.map_filter table_name qs)"
    using Cons.prems(3) set_map_filter_Cons [of table_name qs q]
      set_map_filter_head [of index_name q _ qs] by blast
  ultimately have "noop d' q"
    using run_noop_preserved [OF run _ q qs] by blast
  with Cons.IH [OF run qs disj] show ?case by simp
qed

lemma noop_sqlite_Exec: "noop d q \<Longrightarrow> sqlite_Exec d q = (None, d)"
  by (simp add: noop_def sqlite_Exec_def)

lemma noop_run:
  "list_all (noop d) qs \<Longrightarrow> exec_stmts sqlite_Exec qs d = (None, d)"
  by (induction qs) (simp_all add: noop_sqlite_Exec)

lemma stmts_repeatable:
  "list_all if_not_exists stmts \<and>
   set (List.map_filter index_name stmts) \<inter> set (List.map_filter table_name stmts) = {}"
  by (simp add: stmts_def)

lemma createSchema_has_schema:
  "createSchema sqlite_Exec d = (None, d') \<Longrightarrow> has_schema d'"
  using run_all_noop [of stmts d d'] stmts_repeatable
  by (simp add: createSchema_def has_schema_def)

lemma has_schema_createSchema:
  "has_schema d \<Longrightarrow> createSchema sqlite_Exec d = (None, d)"
  by (simp add: createSchema_def has_schema_def noop_run)

section \<open>The bootstrap on the process and on the database\<close>

lemma db_Exec_None:
  assumes "db_Exec ext db w q = (None, w')"
  shows "dsn db \<in> open_dbs w \<and> exec_fault ext (length (exec_log w)) = None \<and>
    (\<exists>d d'. decode ext (file_contents w (dsn db)) = Some d \<and> sqlite_exec d q = Inr d' \<and>
       w' = (if d' = d then w\<lparr>exec_log := exec_log w @ [q]\<rparr>
             else w\<lparr>exec_log := exec_log w @ [q],
                    files := (files w)(dsn db \<mapsto> encode ext d')\<rparr>))"
  using assms
  by (auto simp: db_Exec_def Let_def split: if_splits option.splits sum.splits)

lemma db_Exec_frame:
  "stdin (snd (db_Exec ext db w q)) = stdin w \<and>
   stdin_reads (snd (db_Exec ext db w q)) = stdin_reads w \<and>
   stdout (snd (db_Exec ext db w q)) = stdout w \<and>
   stderr (snd (db_Exec ext db w q)) = stderr w \<and>
   open_dbs (snd (db_Exec ext db w q)) = open_dbs w \<and>
   fds (snd (db_Exec ext db w q)) = fds w \<and>
   status (snd (db_Exec ext db w q)) = status w"
  by (simp add: db_Exec_def Let_def split: option.splits sum.splits)

lemma exec_stmts_frame:
  "stdin (snd (exec_stmts (db_Exec ext db) qs w)) = stdin w \<and>
   stdin_reads (snd (exec_stmts (db_Exec ext db) qs w)) = stdin_reads w \<and>
   stdout (snd (exec_stmts (db_Exec ext db) qs w)) = stdout w \<and>
   stderr (snd (exec_stmts (db_Exec ext db) qs w)) = stderr w \<and>
   open_dbs (snd (exec_stmts (db_Exec ext db) qs w)) = open_dbs w \<and>
   fds (snd (exec_stmts (db_Exec ext db) qs w)) = fds w \<and>
   status (snd (exec_stmts (db_Exec ext db) qs w)) = status w"
proof (induction qs arbitrary: w)
  case Nil
  then show ?case by simp
next
  case (Cons q qs)
  obtain r w1 where st: "db_Exec ext db w q = (r, w1)"
    by (cases "db_Exec ext db w q")
  with db_Exec_frame [of ext db w q] Cons.IH [of w1] show ?case
    by (cases r) simp_all
qed

lemma db_Exec_sim:
  assumes "\<forall>d. decode ext (encode ext d) = Some d"
    and "decode ext (file_contents w (dsn db)) = Some d"
    and "db_Exec ext db w q = (None, w')"
  shows "\<exists>d'. sqlite_exec d q = Inr d' \<and> decode ext (file_contents w' (dsn db)) = Some d'"
proof -
  from db_Exec_None [OF assms(3)] assms(2) obtain d' where
    e: "sqlite_exec d q = Inr d'"
    and w': "w' = (if d' = d then w\<lparr>exec_log := exec_log w @ [q]\<rparr>
             else w\<lparr>exec_log := exec_log w @ [q],
                    files := (files w)(dsn db \<mapsto> encode ext d')\<rparr>)"
    by auto
  have "decode ext (file_contents w' (dsn db)) = Some d'"
  proof (cases "d' = d")
    case True
    with w' assms(2) show ?thesis by (simp add: file_contents_def)
  next
    case False
    with w' assms(1) show ?thesis by (simp add: file_contents_def)
  qed
  with e show ?thesis by blast
qed

lemma exec_stmts_sim:
  assumes "\<forall>d. decode ext (encode ext d) = Some d"
    and "decode ext (file_contents w (dsn db)) = Some d"
    and "exec_stmts (db_Exec ext db) qs w = (None, w')"
  shows "\<exists>d'. exec_stmts sqlite_Exec qs d = (None, d') \<and>
     decode ext (file_contents w' (dsn db)) = Some d'"
  using assms(2,3)
proof (induction qs arbitrary: w d)
  case Nil
  then show ?case by simp
next
  case (Cons q qs)
  from exec_stmts_Cons_None [OF Cons.prems(2)] obtain w1 where
    st: "db_Exec ext db w q = (None, w1)" and run: "exec_stmts (db_Exec ext db) qs w1 = (None, w')"
    by blast
  from db_Exec_sim [OF assms(1) Cons.prems(1) st] obtain d1 where
    e: "sqlite_exec d q = Inr d1" and dec: "decode ext (file_contents w1 (dsn db)) = Some d1"
    by blast
  from Cons.IH [OF dec run] obtain d' where
    "exec_stmts sqlite_Exec qs d1 = (None, d')" "decode ext (file_contents w' (dsn db)) = Some d'"
    by blast
  with e sqlite_Exec_None [of d q d1] show ?case
    by simp
qed

lemma db_Exec_noop:
  assumes "dsn db \<in> open_dbs w" and "exec_fault ext (length (exec_log w)) = None"
    and "decode ext (file_contents w (dsn db)) = Some d" and "noop d q"
  shows "db_Exec ext db w q = (None, w\<lparr>exec_log := exec_log w @ [q]\<rparr>)"
  using assms by (simp add: db_Exec_def noop_def)

lemma exec_stmts_noop:
  assumes "dsn db \<in> open_dbs w"
    and "decode ext (file_contents w (dsn db)) = Some d" and "list_all (noop d) qs"
    and "\<forall>k<length qs. exec_fault ext (length (exec_log w) + k) = None"
  shows "exec_stmts (db_Exec ext db) qs w = (None, w\<lparr>exec_log := exec_log w @ qs\<rparr>)"
  using assms
proof (induction qs arbitrary: w)
  case Nil
  then show ?case by simp
next
  case (Cons q qs)
  from Cons.prems(4) have f0: "exec_fault ext (length (exec_log w)) = None"
    by force
  from Cons.prems(3) have q: "noop d q" and qs: "list_all (noop d) qs"
    by simp_all
  let ?w1 = "w\<lparr>exec_log := exec_log w @ [q]\<rparr>"
  have st: "db_Exec ext db w q = (None, ?w1)"
    using db_Exec_noop [OF Cons.prems(1) f0 Cons.prems(2) q] .
  have "\<forall>k<length qs. exec_fault ext (length (exec_log ?w1) + k) = None"
  proof (intro allI impI)
    fix k assume "k < length qs"
    then have "Suc k < length (q # qs)" by simp
    with Cons.prems(4) have "exec_fault ext (length (exec_log w) + Suc k) = None"
      by blast
    then show "exec_fault ext (length (exec_log ?w1) + k) = None" by simp
  qed
  moreover have "dsn db \<in> open_dbs ?w1" using Cons.prems(1) by simp
  moreover have "decode ext (file_contents ?w1 (dsn db)) = Some d"
    using Cons.prems(2) by (simp add: file_contents_def)
  ultimately have "exec_stmts (db_Exec ext db) qs ?w1 = (None, ?w1\<lparr>exec_log := exec_log ?w1 @ qs\<rparr>)"
    using Cons.IH [of ?w1] qs by blast
  with st show ?case by simp
qed

lemma exec_stmts_noop_ok:
  assumes "decode ext (file_contents w (dsn db)) = Some d" and "list_all (noop d) qs"
    and "exec_stmts (db_Exec ext db) qs w = (None, w')"
  shows "w' = w\<lparr>exec_log := exec_log w @ qs\<rparr>"
  using assms
proof (induction qs arbitrary: w)
  case Nil
  then show ?case by simp
next
  case (Cons q qs)
  from exec_stmts_Cons_None [OF Cons.prems(3)] obtain w1 where
    st: "db_Exec ext db w q = (None, w1)" and run: "exec_stmts (db_Exec ext db) qs w1 = (None, w')"
    by blast
  from Cons.prems(2) have q: "noop d q" and qs: "list_all (noop d) qs"
    by simp_all
  from db_Exec_None [OF st] Cons.prems(1) q have w1: "w1 = w\<lparr>exec_log := exec_log w @ [q]\<rparr>"
    by (auto simp: noop_def)
  then have "decode ext (file_contents w1 (dsn db)) = Some d"
    using Cons.prems(1) by (simp add: file_contents_def)
  from Cons.IH [OF this qs run] w1 show ?case by simp
qed

text \<open>
  C5. If \<open>createSchema\<close> has succeeded on a handle, running it again on the same
  handle, with no fault of the environment, returns no error and changes nothing but
  the log of executed statements: the backing store holds the same database, with the
  same tables and indices, on which every statement of the bootstrap is a no-op. The
  engine is assumed to read back the image it writes.
\<close>

theorem createSchema_twice:
  assumes "\<forall>d. decode ext (encode ext d) = Some d"
    and "createSchema (db_Exec ext db) w = (None, w1)"
    and "\<forall>k<length stmts. exec_fault ext (length (exec_log w1) + k) = None"
  shows "createSchema (db_Exec ext db) w1 = (None, w1\<lparr>exec_log := exec_log w1 @ stmts\<rparr>) \<and>
    (\<exists>d1. decode ext (file_contents w1 (dsn db)) = Some d1 \<and> has_schema d1 \<and>
       decode ext (file_contents (snd (createSchema (db_Exec ext db) w1)) (dsn db)) = Some d1)"
proof -
  from assms(2) have run: "exec_stmts (db_Exec ext db) stmts w = (None, w1)"
    by (simp add: createSchema_def)
  have "stmts = hd stmts # tl stmts"
    by (simp add: stmts_def)
  with run have "exec_stmts (db_Exec ext db) (hd stmts # tl stmts) w = (None, w1)"
    by simp
  from exec_stmts_Cons_None [OF this] obtain w0 where
    "db_Exec ext db w (hd stmts) = (None, w0)"
    by blast
  from db_Exec_None [OF this] obtain d where
    op: "dsn db \<in> open_dbs w" and dec: "decode ext (file_contents w (dsn db)) = Some d"
    by blast
  from exec_stmts_sim [OF assms(1) dec run] obtain d1 where
    run1: "exec_stmts sqlite_Exec stmts d = (None, d1)"
    and dec1: "decode ext (file_contents w1 (dsn db)) = Some d1"
    by blast
  from run1 have hs: "has_schema d1"
    using createSchema_has_schema [of d d1] by (simp add: createSchema_def)
  have op1: "dsn db \<in> open_dbs w1"
    using exec_stmts_frame [of ext db stmts w] run op by simp
  from hs have "list_all (noop d1) stmts"
    by (simp add: has_schema_def)
  from exec_stmts_noop [OF op1 dec1 this assms(3)]
  have second: "createSchema (db_Exec ext db) w1 = (None, w1\<lparr>exec_log := exec_log w1 @ stmts\<rparr>)"
    by (simp add: createSchema_def)
  moreover have "decode ext (file_contents (snd (createSchema (db_Exec ext db) w1)) (dsn db)) = Some d1"
    using second dec1 by (simp add: file_contents_def)
  ultimately show ?thesis
    using dec1 hs by blast
qed

lemma cell_roundtrip: "\<forall>d. decode pipe_env (encode pipe_env d) = Some d"
  by (simp add: env_defs cell_encode_def)

theorem createSchema_twice_witness:
  "(\<forall>d. decode pipe_env (encode pipe_env d) = Some d) \<and>
   createSchema (db_Exec pipe_env store_db) world_fresh =
     (None, world_fresh\<lparr>files := [store \<mapsto> [schema_db]], exec_log := stmts\<rparr>) \<and>
   createSchema (db_Exec pipe_env store_db)
       (world_fresh\<lparr>files := [store \<mapsto> [schema_db]], exec_log := stmts\<rparr>) =
     (None, world_fresh\<lparr>files := [store \<mapsto> [schema_db]],
                         exec_log := stmts @ stmts\<rparr>)"
proof -
  have nf: "\<forall>k<length stmts. exec_fault pipe_env
      (length (exec_log (world_fresh\<lparr>files := [store \<mapsto> [schema_db]],
         exec_log := stmts\<rparr>)) + k) = None"
    by (simp add: env_defs)
  from createSchema_twice [OF cell_roundtrip createSchema_fresh nf] cell_roundtrip
    createSchema_fresh
  show ?thesis by simp
qed

section \<open>OpenDB on a terminal\<close>

lemma readDB_terminal_frame:
  "stdin (snd (readDB ext True w)) = stdin w \<and>
   stdin_reads (snd (readDB ext True w)) = stdin_reads w"
  by (simp add: readDB_def os_CreateTemp_def sql_Open_def db_Ping_def
      os_Remove_def file_Close_def db_Close_def
      split: sum.splits option.splits prod.splits)

lemma readDB_terminal_ok:
  assumes "readDB ext True w = (Inr (db, p), w1)"
  shows "dsn db = p \<and> files w1 p = Some [] \<and> p \<in> open_dbs w1 \<and> exec_log w1 = exec_log w"
  using assms
  by (auto simp: readDB_def os_CreateTemp_def sql_Open_def db_Ping_def file_Close_def
      split: sum.splits option.splits if_splits prod.splits)

lemma readDB_pipe_ok:
  assumes "readDB ext False w = (Inr (db, p), w1)"
  shows "dsn db = p \<and> files w1 p = Some (stdin w) \<and> stdout w1 = stdout w \<and>
     p \<in> open_dbs w1 \<and> exec_log w1 = exec_log w"
  using assms
  by (auto simp: readDB_def os_CreateTemp_def sql_Open_def db_Ping_def file_Close_def
      io_Copy_in_def file_contents_def
      split: sum.splits option.splits if_splits prod.splits)

lemma OpenDB_ok:
  assumes "fst (OpenDB ext w) = Inr (db, p)"
  shows "\<exists>w1. readDB ext (isTerminal (stdin_stat ext)) w = (Inr (db, p), w1) \<and>
     createSchema (db_Exec ext db) w1 = (None, snd (OpenDB ext w))"
  using assms
  by (auto simp: OpenDB_def split: prod.splits sum.splits option.splits)

lemma OpenDB_frame_stdin:
  "stdin (snd (OpenDB ext w)) = stdin (snd (readDB ext (isTerminal (stdin_stat ext)) w)) \<and>
   stdin_reads (snd (OpenDB ext w)) = stdin_reads (snd (readDB ext (isTerminal (stdin_stat ext)) w))"
proof (cases "readDB ext (isTerminal (stdin_stat ext)) w")
  case (Pair r w1)
  show ?thesis
  proof (cases r)
    case (Inl e)
    with Pair show ?thesis by (simp add: OpenDB_def)
  next
    case (Inr hp)
    obtain db p where hp: "hp = (db, p)" by (cases hp)
    obtain r2 w2 where cs: "createSchema (db_Exec ext db) w1 = (r2, w2)"
      by (cases "createSchema (db_Exec ext db) w1")
    with exec_stmts_frame [of ext db stmts w1]
    have "stdin w2 = stdin w1 \<and> stdin_reads w2 = stdin_reads w1"
      by (simp add: createSchema_def)
    with Pair Inr hp cs show ?thesis
      by (cases r2) (simp_all add: OpenDB_def os_Remove_def db_Close_def)
  qed
qed

lemma db_Exec_file_stays:
  "files w p \<noteq> None \<Longrightarrow> files (snd (db_Exec ext db w q)) p \<noteq> None"
  by (simp add: db_Exec_def Let_def split: option.splits sum.splits)

lemma exec_stmts_file_stays:
  "files w p \<noteq> None \<Longrightarrow> files (snd (exec_stmts (db_Exec ext db) qs w)) p \<noteq> None"
proof (induction qs arbitrary: w)
  case Nil
  then show ?case by simp
next
  case (Cons q qs)
  obtain r w1 where st: "db_Exec ext db w q = (r, w1)"
    by (cases "db_Exec ext db w q")
  with db_Exec_file_stays [OF Cons.prems, of ext db q] have "files w1 p \<noteq> None"
    by simp
  with st Cons.IH [of w1] Cons.prems show ?case
    by (cases r) simp_all
qed

lemma bootstrap_empty_run: "exec_stmts sqlite_Exec stmts empty_db = (None, schema_db)"
  using bootstrap_empty by (simp add: createSchema_def)


lemma calm_no_fault:
  "calm ext w \<Longrightarrow> \<forall>k<length stmts. exec_fault ext (length (exec_log w) + k) = None"
  by (simp add: calm_def list_all_iff)

lemma readDB_calm:
  assumes "calm ext w"
  shows "\<exists>p w1. readDB ext t w = (Inr (SqlDB p, p), w1)"
  using assms
  by (cases t)
    (auto simp: calm_def readDB_def os_CreateTemp_def io_Copy_in_def sql_Open_def db_Ping_def
      split: sum.splits)

lemma db_Exec_forward:
  assumes "\<forall>d. decode ext (encode ext d) = Some d"
    and "dsn db \<in> open_dbs w" and "exec_fault ext (length (exec_log w)) = None"
    and "decode ext (file_contents w (dsn db)) = Some d" and "sqlite_exec d q = Inr d'"
  shows "fst (db_Exec ext db w q) = None \<and>
     dsn db \<in> open_dbs (snd (db_Exec ext db w q)) \<and>
     exec_log (snd (db_Exec ext db w q)) = exec_log w @ [q] \<and>
     decode ext (file_contents (snd (db_Exec ext db w q)) (dsn db)) = Some d'"
  using assms by (simp add: db_Exec_def Let_def file_contents_def)

lemma exec_stmts_forward:
  assumes "\<forall>d. decode ext (encode ext d) = Some d"
    and "dsn db \<in> open_dbs w"
    and "decode ext (file_contents w (dsn db)) = Some d"
    and "\<forall>k<length qs. exec_fault ext (length (exec_log w) + k) = None"
    and "exec_stmts sqlite_Exec qs d = (None, d')"
  shows "fst (exec_stmts (db_Exec ext db) qs w) = None"
  using assms(2-5)
proof (induction qs arbitrary: w d)
  case Nil
  then show ?case by simp
next
  case (Cons q qs)
  from exec_stmts_sqlite_Cons [OF Cons.prems(4)] obtain d1 where
    e: "sqlite_exec d q = Inr d1" and run: "exec_stmts sqlite_Exec qs d1 = (None, d')"
    by blast
  from Cons.prems(3) have f0: "exec_fault ext (length (exec_log w)) = None"
    by force
  obtain r w1 where st: "db_Exec ext db w q = (r, w1)"
    by (cases "db_Exec ext db w q")
  with db_Exec_forward [OF assms(1) Cons.prems(1) f0 Cons.prems(2) e]
  have r: "r = None" and op: "dsn db \<in> open_dbs w1" and lg: "exec_log w1 = exec_log w @ [q]"
    and dec: "decode ext (file_contents w1 (dsn db)) = Some d1"
    by simp_all
  have nf: "\<forall>k<length qs. exec_fault ext (length (exec_log w1) + k) = None"
  proof (intro allI impI)
    fix k assume "k < length qs"
    then have "Suc k < length (q # qs)" by simp
    with Cons.prems(3) have "exec_fault ext (length (exec_log w) + Suc k) = None"
      by blast
    with lg show "exec_fault ext (length (exec_log w1) + k) = None" by simp
  qed
  from Cons.IH [OF op dec nf run] st r show ?case by simp
qed

lemma OpenDB_alt:
  "readDB ext (isTerminal (stdin_stat ext)) w = (Inr (db, p), w1) \<Longrightarrow>
   fst (createSchema (db_Exec ext db) w1) = None \<Longrightarrow>
   OpenDB ext w = (Inr (db, p), snd (createSchema (db_Exec ext db) w1))"
  by (cases "createSchema (db_Exec ext db) w1") (simp add: OpenDB_def)



lemma OpenDB_terminal_calm:
  assumes "isTerminal (stdin_stat ext)" and "calm ext w"
    and "decode ext [] = Some empty_db" and "\<forall>d. decode ext (encode ext d) = Some d"
  shows "\<exists>p. fst (OpenDB ext w) = Inr (SqlDB p, p)"
proof -
  from readDB_calm [OF assms(2), of True] obtain p w1 where
    rd: "readDB ext True w = (Inr (SqlDB p, p), w1)"
    by blast
  from readDB_terminal_ok [OF rd] have f: "files w1 p = Some []"
    and op: "dsn (SqlDB p) \<in> open_dbs w1" and lg: "exec_log w1 = exec_log w"
    by simp_all
  from f assms(3) have dec: "decode ext (file_contents w1 (dsn (SqlDB p))) = Some empty_db"
    by (simp add: file_contents_def)
  from calm_no_fault [OF assms(2)] lg
  have nf: "\<forall>k<length stmts. exec_fault ext (length (exec_log w1) + k) = None"
    by simp
  from exec_stmts_forward [OF assms(4) op dec nf bootstrap_empty_run]
  have "fst (createSchema (db_Exec ext (SqlDB p)) w1) = None"
    by (simp add: createSchema_def)
  with OpenDB_alt [of ext w "SqlDB p" p w1] rd assms(1) show ?thesis
    by auto
qed


text \<open>
  C7. When standard input is a terminal, \<open>OpenDB\<close> performs no read of standard
  input on any path. If the engine reads the empty file as the empty database and
  reads back the images it writes, the backing store of a successful \<open>OpenDB\<close> exists
  and holds exactly the nine objects of the schema and no row; and \<open>OpenDB\<close> does
  succeed when no library call fails.
\<close>

theorem OpenDB_terminal:
  assumes "isTerminal (stdin_stat ext)"
  shows "stdin (snd (OpenDB ext w)) = stdin w \<and>
    stdin_reads (snd (OpenDB ext w)) = stdin_reads w \<and>
    (decode ext [] = Some empty_db \<and> (\<forall>d. decode ext (encode ext d) = Some d) \<and>
     fst (OpenDB ext w) = Inr (db, dbPath) \<longrightarrow>
       files (snd (OpenDB ext w)) dbPath \<noteq> None \<and>
       decode ext (file_contents (snd (OpenDB ext w)) dbPath) =
         Some \<lparr>schema = tl stmts, table_rows = []\<rparr>) \<and>
    (calm ext w \<and> decode ext [] = Some empty_db \<and>
     (\<forall>d. decode ext (encode ext d) = Some d) \<longrightarrow>
       (\<exists>p. fst (OpenDB ext w) = Inr (SqlDB p, p)))"
proof (intro conjI impI)
  from assms OpenDB_frame_stdin [of ext w] readDB_terminal_frame [of ext w]
  show "stdin (snd (OpenDB ext w)) = stdin w"
    and "stdin_reads (snd (OpenDB ext w)) = stdin_reads w"
    by simp_all
next
  assume h: "decode ext [] = Some empty_db \<and> (\<forall>d. decode ext (encode ext d) = Some d) \<and>
     fst (OpenDB ext w) = Inr (db, dbPath)"
  from OpenDB_ok [of ext w db dbPath] h assms obtain w1 where
    rd: "readDB ext True w = (Inr (db, dbPath), w1)"
    and cs: "createSchema (db_Exec ext db) w1 = (None, snd (OpenDB ext w))"
    by auto
  from readDB_terminal_ok [OF rd] have d: "dsn db = dbPath" and f: "files w1 dbPath = Some []"
    by simp_all
  from f h d have dec: "decode ext (file_contents w1 (dsn db)) = Some empty_db"
    by (simp add: file_contents_def)
  from cs have run: "exec_stmts (db_Exec ext db) stmts w1 = (None, snd (OpenDB ext w))"
    by (simp add: createSchema_def)
  from h have rt: "\<forall>d. decode ext (encode ext d) = Some d" by simp
  from exec_stmts_sim [OF rt dec run] bootstrap_empty_run d
  show "decode ext (file_contents (snd (OpenDB ext w)) dbPath) =
         Some \<lparr>schema = tl stmts, table_rows = []\<rparr>"
    by (auto simp: schema_db_def)
  from f exec_stmts_file_stays [of w1 dbPath ext db stmts] run
  show "files (snd (OpenDB ext w)) dbPath \<noteq> None"
    by simp
next
  assume "calm ext w \<and> decode ext [] = Some empty_db \<and>
     (\<forall>d. decode ext (encode ext d) = Some d)"
  with OpenDB_terminal_calm [OF assms, of w]
  show "\<exists>p. fst (OpenDB ext w) = Inr (SqlDB p, p)"
    by blast
qed

lemma OpenDB_tty: "OpenDB tty_env (world0\<lparr>stdin := [notes_db]\<rparr>) =
   (Inr (store_db, store),
    world0\<lparr>stdin := [notes_db], files := [store \<mapsto> [schema_db]],
            open_dbs := {store}, exec_log := stmts\<rparr>)"
  by (simp add: OpenDB_def isTerminal_tty env_defs world0_def run_defs engine_defs)

theorem OpenDB_terminal_witness:
  "isTerminal (stdin_stat tty_env) \<and>
   decode tty_env [] = Some empty_db \<and> (\<forall>d. decode tty_env (encode tty_env d) = Some d) \<and>
   fst (OpenDB tty_env (world0\<lparr>stdin := [notes_db]\<rparr>)) =
     Inr (store_db, store) \<and>
   stdin (snd (OpenDB tty_env (world0\<lparr>stdin := [notes_db]\<rparr>))) = [notes_db] \<and>
   stdin_reads (snd (OpenDB tty_env (world0\<lparr>stdin := [notes_db]\<rparr>))) = 0 \<and>
   decode tty_env (file_contents (snd (OpenDB tty_env (world0\<lparr>stdin := [notes_db]\<rparr>)))
       store) = Some \<lparr>schema = tl stmts, table_rows = []\<rparr>"
proof -
  have t: "isTerminal (stdin_stat tty_env)"
    by (simp add: env_defs isTerminal_tty)
  have c: "decode tty_env [] = Some empty_db \<and> (\<forall>d. decode tty_env (encode tty_env d) = Some d)"
    by (simp add: env_defs cell_encode_def)
  have s: "fst (OpenDB tty_env (world0\<lparr>stdin := [notes_db]\<rparr>)) =
     Inr (store_db, store)"
    using OpenDB_tty by simp
  from OpenDB_terminal [OF t, of "world0\<lparr>stdin := [notes_db]\<rparr>" "store_db"
      "store"] t c s
  show ?thesis
    by (simp add: world0_def)
qed

section \<open>OpenDB followed by OutputDB\<close>

lemma OutputDB_pipe_ok:
  assumes "\<not> isTerminal (stdout_stat ext)" and "fst (OutputDB ext db p w) = None"
  shows "stdout (snd (OutputDB ext db p w)) = stdout w @ file_contents w p"
  using assms
  by (auto simp: OutputDB_def writeDB_def db_Close_def os_Open_def io_Copy_out_def
      file_Close_def os_Remove_def file_contents_def
      split: prod.splits option.splits if_splits)

lemma OutputDB_pipe_calm:
  assumes "\<not> isTerminal (stdout_stat ext)" and "files w p \<noteq> None"
    and "db_close ext = None" and "os_open ext = None" and "copy_out ext = None"
  shows "fst (OutputDB ext db p w) = None"
  using assms
  by (auto simp: OutputDB_def writeDB_def db_Close_def os_Open_def io_Copy_out_def
      split: prod.splits option.splits if_splits)

lemma pass_through_ok:
  assumes "fst (pass_through ext w) = None"
  shows "\<exists>db p. fst (OpenDB ext w) = Inr (db, p) \<and>
     pass_through ext w = OutputDB ext db p (snd (OpenDB ext w))"
  using assms
  by (auto simp: pass_through_def split: prod.splits sum.splits)

text \<open>
  C1, amended. Let both streams be pipes and let standard input hold the image of a
  database that already has the whole schema. Then a successful \<open>OpenDB\<close> followed
  at once by \<open>OutputDB\<close> appends to standard output exactly the bytes that were on
  standard input; and the two calls do succeed when no library call fails.
\<close>

theorem pass_through_identity:
  assumes "\<not> isTerminal (stdin_stat ext)" and "\<not> isTerminal (stdout_stat ext)"
    and "decode ext (stdin w) = Some d" and "has_schema d"
  shows "(fst (pass_through ext w) = None \<longrightarrow>
            stdout (snd (pass_through ext w)) = stdout w @ stdin w) \<and>
         (calm ext w \<longrightarrow> fst (pass_through ext w) = None)"
proof (intro conjI impI)
  assume ok: "fst (pass_through ext w) = None"
  from pass_through_ok [OF ok] obtain db p where
    od: "fst (OpenDB ext w) = Inr (db, p)"
    and pt: "pass_through ext w = OutputDB ext db p (snd (OpenDB ext w))"
    by blast
  from OpenDB_ok [OF od] assms(1) obtain w1 where
    rd: "readDB ext False w = (Inr (db, p), w1)"
    and cs: "createSchema (db_Exec ext db) w1 = (None, snd (OpenDB ext w))"
    by auto
  from readDB_pipe_ok [OF rd] have dsn: "dsn db = p" and f: "files w1 p = Some (stdin w)"
    and so: "stdout w1 = stdout w"
    by simp_all
  from f dsn assms(3) have dec: "decode ext (file_contents w1 (dsn db)) = Some d"
    by (simp add: file_contents_def)
  from assms(4) have np: "list_all (noop d) stmts"
    by (simp add: has_schema_def)
  from cs have "exec_stmts (db_Exec ext db) stmts w1 = (None, snd (OpenDB ext w))"
    by (simp add: createSchema_def)
  from exec_stmts_noop_ok [OF dec np this]
  have w2: "snd (OpenDB ext w) = w1\<lparr>exec_log := exec_log w1 @ stmts\<rparr>" .
  from ok pt have "fst (OutputDB ext db p (snd (OpenDB ext w))) = None"
    by simp
  from OutputDB_pipe_ok [OF assms(2) this] pt w2 f so
  show "stdout (snd (pass_through ext w)) = stdout w @ stdin w"
    by (simp add: file_contents_def)
next
  assume c: "calm ext w"
  from readDB_calm [OF c, of False] obtain p w1 where
    rd: "readDB ext False w = (Inr (SqlDB p, p), w1)"
    by blast
  from readDB_pipe_ok [OF rd] have f: "files w1 p = Some (stdin w)"
    and op: "p \<in> open_dbs w1" and lg: "exec_log w1 = exec_log w"
    by simp_all
  from f assms(3) have dec: "decode ext (file_contents w1 (dsn (SqlDB p))) = Some d"
    by (simp add: file_contents_def)
  from assms(4) have np: "list_all (noop d) stmts"
    by (simp add: has_schema_def)
  from calm_no_fault [OF c] lg
  have nf: "\<forall>k<length stmts. exec_fault ext (length (exec_log w1) + k) = None"
    by simp
  from op have op': "dsn (SqlDB p) \<in> open_dbs w1" by simp
  from exec_stmts_noop [OF op' dec np nf]
  have cs: "createSchema (db_Exec ext (SqlDB p)) w1 = (None, w1\<lparr>exec_log := exec_log w1 @ stmts\<rparr>)"
    by (simp add: createSchema_def)
  with rd assms(1) have od: "OpenDB ext w = (Inr (SqlDB p, p), w1\<lparr>exec_log := exec_log w1 @ stmts\<rparr>)"
    by (simp add: OpenDB_def)
  from c have "db_close ext = None" "os_open ext = None" "copy_out ext = None"
    by (simp_all add: calm_def)
  with OutputDB_pipe_calm [OF assms(2), of "w1\<lparr>exec_log := exec_log w1 @ stmts\<rparr>" p "SqlDB p"] f
  have "fst (OutputDB ext (SqlDB p) p (w1\<lparr>exec_log := exec_log w1 @ stmts\<rparr>)) = None"
    by simp
  with od show "fst (pass_through ext w) = None"
    by (simp add: pass_through_def)
qed

lemma has_schema_stage_db: "has_schema stage_db"
  by (simp add: has_schema_def noop_def stage_db_def engine_defs)

lemma calm_pipe_env: "calm pipe_env (world0\<lparr>stdin := [stage_db]\<rparr>)"
  by (simp add: calm_def env_defs world0_def stmts_def)

theorem pass_through_identity_witness:
  "\<not> isTerminal (stdin_stat pipe_env) \<and> \<not> isTerminal (stdout_stat pipe_env) \<and>
   decode pipe_env (stdin (world0\<lparr>stdin := [stage_db]\<rparr>)) = Some stage_db \<and>
   has_schema stage_db \<and> calm pipe_env (world0\<lparr>stdin := [stage_db]\<rparr>) \<and>
   fst (pass_through pipe_env (world0\<lparr>stdin := [stage_db]\<rparr>)) = None \<and>
   stdout (snd (pass_through pipe_env (world0\<lparr>stdin := [stage_db]\<rparr>))) = [stage_db]"
proof -
  have a: "\<not> isTerminal (stdin_stat pipe_env)" "\<not> isTerminal (stdout_stat pipe_env)"
    by (simp_all add: env_defs isTerminal_pipe)
  have b: "decode pipe_env (stdin (world0\<lparr>stdin := [stage_db]\<rparr>)) = Some stage_db"
    by (simp add: env_defs)
  from pass_through_identity [OF a b has_schema_stage_db] calm_pipe_env a b has_schema_stage_db
  show ?thesis
    by (simp add: world0_def)
qed

text \<open>
  The condition on the schema cannot be dropped, whatever the file format. When the
  input database lacks part of the schema and the two calls succeed, what is written
  is not the input: it is the image of the database the bootstrap makes of the input
  database, which has the whole schema.
\<close>

lemma pass_through_adds_schema:
  assumes "\<not> isTerminal (stdin_stat ext)" and "\<not> isTerminal (stdout_stat ext)"
    and "\<forall>d. decode ext (encode ext d) = Some d"
    and "decode ext (stdin w) = Some d" and "\<not> has_schema d"
    and "fst (pass_through ext w) = None"
  shows "\<exists>img d'. stdout (snd (pass_through ext w)) = stdout w @ img \<and>
     createSchema sqlite_Exec d = (None, d') \<and>
     decode ext img = Some d' \<and> has_schema d' \<and> img \<noteq> stdin w"
proof -
  from pass_through_ok [OF assms(6)] obtain db p where
    od: "fst (OpenDB ext w) = Inr (db, p)"
    and pt: "pass_through ext w = OutputDB ext db p (snd (OpenDB ext w))"
    by blast
  from OpenDB_ok [OF od] assms(1) obtain w1 where
    rd: "readDB ext False w = (Inr (db, p), w1)"
    and cs: "createSchema (db_Exec ext db) w1 = (None, snd (OpenDB ext w))"
    by auto
  from readDB_pipe_ok [OF rd] have dsn: "dsn db = p" and f: "files w1 p = Some (stdin w)"
    and so: "stdout w1 = stdout w"
    by simp_all
  from f dsn assms(4) have dec: "decode ext (file_contents w1 (dsn db)) = Some d"
    by (simp add: file_contents_def)
  from cs have run: "exec_stmts (db_Exec ext db) stmts w1 = (None, snd (OpenDB ext w))"
    by (simp add: createSchema_def)
  from exec_stmts_sim [OF assms(3) dec run] obtain d' where
    run': "exec_stmts sqlite_Exec stmts d = (None, d')"
    and dec': "decode ext (file_contents (snd (OpenDB ext w)) (dsn db)) = Some d'"
    by blast
  from run' have hs: "has_schema d'"
    using createSchema_has_schema [of d d'] by (simp add: createSchema_def)
  from exec_stmts_frame [of ext db stmts w1] run so
  have so2: "stdout (snd (OpenDB ext w)) = stdout w"
    by simp
  from assms(6) pt have "fst (OutputDB ext db p (snd (OpenDB ext w))) = None"
    by simp
  from OutputDB_pipe_ok [OF assms(2) this] pt so2
  have out: "stdout (snd (pass_through ext w)) = stdout w @ file_contents (snd (OpenDB ext w)) p"
    by simp
  have "file_contents (snd (OpenDB ext w)) p \<noteq> stdin w"
  proof
    assume "file_contents (snd (OpenDB ext w)) p = stdin w"
    with dec' dsn assms(4) have "d' = d" by simp
    with hs assms(5) show False by simp
  qed
  moreover from run' have "createSchema sqlite_Exec d = (None, d')"
    by (simp add: createSchema_def)
  ultimately show ?thesis
    using out dec' dsn hs by blast
qed

lemma pass_through_notes:
  "pass_through pipe_env world_in =
     (None, world0\<lparr>stdin_reads := 1, exec_log := stmts,
                   stdout := [notes_db\<lparr>schema := schema notes_db @ tl stmts\<rparr>]\<rparr>)"
  by (simp add: pass_through_def OpenDB_def OutputDB_def writeDB_def isTerminal_pipe
      env_defs world0_def world_in_def notes_db_def run_defs engine_defs)

lemma pass_through_empty:
  "pass_through pipe_env world0 =
     (None, world0\<lparr>stdin_reads := 1, exec_log := stmts, stdout := [schema_db]\<rparr>)"
  by (simp add: pass_through_def OpenDB_def OutputDB_def writeDB_def isTerminal_pipe
      env_defs world0_def run_defs engine_defs)

text \<open>
  C1 as stated, without the condition on the schema, fails: the image of a database with
  one table of another tool comes out with the nine objects of the schema added, and
  empty input (the empty database) comes out as the image of the schema.
\<close>

theorem pass_through_counterexample:
  "\<not> isTerminal (stdin_stat pipe_env) \<and> \<not> isTerminal (stdout_stat pipe_env) \<and>
   decode pipe_env (stdin world_in) = Some notes_db \<and>
   fst (pass_through pipe_env world_in) = None \<and>
   stdin world_in = [notes_db] \<and>
   stdout (snd (pass_through pipe_env world_in)) =
     [notes_db\<lparr>schema := schema notes_db @ tl stmts\<rparr>] \<and>
   stdout (snd (pass_through pipe_env world_in)) \<noteq> stdout world_in @ stdin world_in \<and>
   decode pipe_env (stdin world0) = Some empty_db \<and>
   fst (pass_through pipe_env world0) = None \<and>
   stdout (snd (pass_through pipe_env world0)) \<noteq> stdout world0 @ stdin world0"
  using pass_through_notes pass_through_empty
  by (simp add: env_defs isTerminal_pipe world_in_def world0_def notes_db_def stmts_def)

end
